theory Spec2Isabelle
  imports Main "HOL-Library.AList"
begin

section \<open>Contract metadata\<close>

text \<open>
  The two source files import the same record of the contract-list schema under two names:
  \<^verbatim>\<open>ContractMetadata\<close> in PrizePool.ts and \<^verbatim>\<open>Contract\<close> in LinkedPrizePool.ts. Here it is
  \<open>ContractMetadata\<close>; the ethers class \<^verbatim>\<open>Contract\<close> of PrizePool.ts is \<open>EthersContract\<close>.
  An ABI is opaque to both files and is carried as a name.
\<close>

type_synonym abi = string

definition ERC20Abi :: abi where
  "ERC20Abi = ''ERC20Abi''"

record child =
  child_chainId :: nat
  child_address :: string

record Extensions =
  children :: "child list option"

record ContractMetadata =
  chainId :: nat
  address :: string
  version :: "nat \<times> nat \<times> nat"
  type :: string
  abi :: abi
  tags :: "string list"
  extensions :: "Extensions option"

text \<open>
  Modelled from the spec: the enum \<^verbatim>\<open>ContractType\<close> (\<^verbatim>\<open>./constants\<close>) is not among the
  sources. The spec has the type tag be one of a closed enumeration; these are the members
  the two files use. The \<^verbatim>\<open>type\<close> field of the metadata is a string, and
  \<^verbatim>\<open>createTokenContract\<close> writes the literal \<^verbatim>\<open>'Token'\<close> there, so every member is taken to
  be the string of its own name.
\<close>

definition ContractType_YieldSourcePrizePool :: string where
  "ContractType_YieldSourcePrizePool = ''YieldSourcePrizePool''"

definition ContractType_PrizePool :: string where
  "ContractType_PrizePool = ''PrizePool''"

definition ContractType_Ticket :: string where
  "ContractType_Ticket = ''Ticket''"

definition ContractType_Token :: string where
  "ContractType_Token = ''Token''"

text \<open>
  Modelled from the spec: \<^verbatim>\<open>createContractMetadata\<close> (\<^verbatim>\<open>./utils\<close>) is not among the sources.
  The spec has a synthesized descriptor carry the network id, the address, the type tag and
  the interface shape it is given; the remaining fields are those \<^verbatim>\<open>createTokenContract\<close>
  of LinkedPrizePool.ts writes.
\<close>

definition createContractMetadata :: "nat \<Rightarrow> string \<Rightarrow> string \<Rightarrow> abi \<Rightarrow> ContractMetadata" where
  "createContractMetadata cid addr ty ab =
     \<lparr>chainId = cid, address = addr, version = (1, 0, 0), type = ty, abi = ab,
      tags = [], extensions = Some \<lparr>children = None\<rparr>\<rparr>"


section \<open>PrizePool.ts\<close>

subsection \<open>Errors, providers, ethers contracts and the chain\<close>

datatype error =
  InvalidAddress
  | NetworkMismatch
  | ResolutionFailure
  | ConstructionFailure
  | TypeError

text \<open>A provider or signer, as far as the files look at it: the network it is connected to.\<close>

record Provider =
  network :: nat

text \<open>\<^verbatim>\<open>new Contract(address, abi, signerOrProvider)\<close> of ethers.\<close>

record EthersContract =
  ec_address :: string
  ec_abi :: abi
  ec_signerOrProvider :: Provider

definition new_Contract :: "string \<Rightarrow> abi \<Rightarrow> Provider \<Rightarrow> EthersContract" where
  "new_Contract addr ab sp = \<lparr>ec_address = addr, ec_abi = ab, ec_signerOrProvider = sp\<rparr>"

text \<open>Decimals, name and symbol of a token (\<^verbatim>\<open>TokenData\<close> of \<^verbatim>\<open>./types\<close>).\<close>

record TokenData =
  td_decimals :: nat
  td_name :: string
  td_symbol :: string

text \<open>
  The world outside the library: the address check of ethers and, for each contract method
  the accessors call through \<^verbatim>\<open>contract.functions\<close>, the first decoded output of the read
  (\<^verbatim>\<open>result[0]\<close>), or \<open>None\<close> when the read fails (transport error, revert, decoding
  error); \<open>tokenData\<close> is what the read of \<^verbatim>\<open>getTokenData\<close> of \<^verbatim>\<open>./utils\<close> returns.
\<close>

record ethers =
  isAddress :: "string \<Rightarrow> bool"
  getToken :: "EthersContract \<Rightarrow> string option"
  getTicket :: "EthersContract \<Rightarrow> string option"
  balanceOf :: "EthersContract \<Rightarrow> string \<Rightarrow> nat option"
  getBalanceAt :: "EthersContract \<Rightarrow> string \<Rightarrow> nat \<Rightarrow> nat option"
  allowance :: "EthersContract \<Rightarrow> string \<Rightarrow> string \<Rightarrow> nat option"
  delegateOf :: "EthersContract \<Rightarrow> string \<Rightarrow> string option"
  totalSupply :: "EthersContract \<Rightarrow> nat option"
  getTotalSupplyAt :: "EthersContract \<Rightarrow> nat \<Rightarrow> nat option"
  tokenData :: "EthersContract \<Rightarrow> TokenData option"

text \<open>The reads a call issues, in the order it issues them.\<close>

datatype read =
  Read_getToken EthersContract
  | Read_getTicket EthersContract
  | Read_balanceOf EthersContract string
  | Read_getBalanceAt EthersContract string nat
  | Read_allowance EthersContract string string
  | Read_delegateOf EthersContract string
  | Read_totalSupply EthersContract
  | Read_getTotalSupplyAt EthersContract nat
  | Read_tokenData EthersContract

subsection \<open>The class\<close>

text \<open>
  The fields of \<^verbatim>\<open>PrizePool\<close>; \<open>pp_chainId\<close> and \<open>signerOrProvider\<close> are the
  \<^verbatim>\<open>this.chainId\<close> and \<^verbatim>\<open>this.signerOrProvider\<close> the class inherits from
  \<^verbatim>\<open>ContractWrapper\<close>.
\<close>

record PrizePool =
  pp_chainId :: nat
  signerOrProvider :: Provider
  prizePoolMetadata :: ContractMetadata
  ticketMetadata :: "ContractMetadata option"
  tokenMetadata :: "ContractMetadata option"
  prizePoolContract :: EthersContract
  ticketContract :: "EthersContract option"
  tokenContract :: "EthersContract option"

text \<open>
  A method returns its result or the error it throws, the object as the call leaves it,
  and the reads it issued.
\<close>

type_synonym 'a outcome = "(error + 'a) \<times> PrizePool \<times> read list"

subsection \<open>getTokenContract\<close>

text \<open>
  \<^verbatim>\<open>getTokenContract\<close> runs in two parts. The first part runs when the method is called,
  up to its \<^verbatim>\<open>await\<close>: it returns the cached contract, or issues the \<^verbatim>\<open>getToken\<close> read and
  suspends. The second part runs when that read has settled: it builds the metadata and the
  contract from the address read, assigns both fields and returns the contract. When the
  read fails the \<^verbatim>\<open>await\<close> throws and nothing is assigned.
\<close>

datatype suspended = Returned EthersContract | Awaiting read

definition getTokenContract_call :: "PrizePool \<Rightarrow> suspended" where
  "getTokenContract_call p =
     (case tokenContract p of
        Some c \<Rightarrow> Returned c
      | None \<Rightarrow> Awaiting (Read_getToken (prizePoolContract p)))"

definition getTokenContract_resume :: "string option \<Rightarrow> PrizePool \<Rightarrow> (error + EthersContract) \<times> PrizePool" where
  "getTokenContract_resume reply p =
     (case reply of
        None \<Rightarrow> (Inl ResolutionFailure, p)
      | Some tokenAddress \<Rightarrow>
          (let tokenMetadata' = createContractMetadata (pp_chainId p) tokenAddress ContractType_Token ERC20Abi;
               tokenContract' = new_Contract (address tokenMetadata') (abi tokenMetadata') (signerOrProvider p)
           in (Inr tokenContract', p\<lparr>tokenMetadata := Some tokenMetadata', tokenContract := Some tokenContract'\<rparr>)))"

text \<open>A call that nothing interleaves with: the read settles and the second part runs at once.\<close>

definition getTokenContract :: "ethers \<Rightarrow> PrizePool \<Rightarrow> EthersContract outcome" where
  "getTokenContract e p =
     (case getTokenContract_call p of
        Returned c \<Rightarrow> (Inr c, p, [])
      | Awaiting r \<Rightarrow>
          (let (res, p') = getTokenContract_resume (getToken e (prizePoolContract p)) p
           in (res, p', [r])))"


subsection \<open>getTicketContract\<close>

text \<open>
  Modelled from the spec: the interface of a ticket, which \<^verbatim>\<open>getAndSetEthersContract\<close>
  finds for the contract it builds, is not among the sources; as every ABI it is a name.
\<close>

definition TicketAbi :: abi where
  "TicketAbi = ''TicketAbi''"

text \<open>
  Modelled from the spec: \<^verbatim>\<open>ContractWrapper.getAndSetEthersContract\<close> is not among the
  sources. The spec has the ticket handle resolved symmetrically to the token handle: the
  cached handle is returned if present; otherwise a single read of the primary contract
  obtains the address, a handle with the ticket interface is built, stored in the cache and
  returned. The closure \<^verbatim>\<open>getAddress\<close> is given as the read it issues and what that read
  returns.
\<close>

definition getAndSetEthersContract ::
    "string \<Rightarrow> read \<Rightarrow> string option \<Rightarrow> PrizePool \<Rightarrow> EthersContract outcome" where
  "getAndSetEthersContract contractType getAddress_read getAddress_reply p =
     (case ticketContract p of
        Some c \<Rightarrow> (Inr c, p, [])
      | None \<Rightarrow>
          (case getAddress_reply of
             None \<Rightarrow> (Inl ResolutionFailure, p, [getAddress_read])
           | Some ticketAddress \<Rightarrow>
               (let ticketMetadata' = createContractMetadata (pp_chainId p) ticketAddress contractType TicketAbi;
                    ticketContract' = new_Contract (address ticketMetadata') (abi ticketMetadata') (signerOrProvider p)
                in (Inr ticketContract',
                    p\<lparr>ticketMetadata := Some ticketMetadata', ticketContract := Some ticketContract'\<rparr>,
                    [getAddress_read]))))"

definition getTicketContract :: "ethers \<Rightarrow> PrizePool \<Rightarrow> EthersContract outcome" where
  "getTicketContract e p =
     getAndSetEthersContract ContractType_Ticket
       (Read_getTicket (prizePoolContract p)) (getTicket e (prizePoolContract p)) p"

subsection \<open>Validation and the single reads\<close>

text \<open>
  Modelled from the spec: \<^verbatim>\<open>validateAddress\<close> (\<^verbatim>\<open>./utils\<close>) is not among the sources. The
  spec has it fail with \<open>InvalidAddress\<close> when the address is not a syntactically
  well-formed chain address, locally and before any read. The error prefix only words the
  message and is left out.
\<close>

definition validateAddress :: "ethers \<Rightarrow> string \<Rightarrow> PrizePool \<Rightarrow> unit outcome" where
  "validateAddress e usersAddress p =
     (if isAddress e usersAddress then (Inr (), p, []) else (Inl InvalidAddress, p, []))"

text \<open>
  Modelled from the spec: \<^verbatim>\<open>validateSignerOrProviderNetwork\<close> (\<^verbatim>\<open>./utils\<close>) is not among the
  sources. The spec has it fail with \<open>NetworkMismatch\<close> when the network id of the active
  chain client is not the handle's, locally and before any read.
\<close>

definition validateSignerOrProviderNetwork :: "Provider \<Rightarrow> nat \<Rightarrow> PrizePool \<Rightarrow> unit outcome" where
  "validateSignerOrProviderNetwork sp cid p =
     (if network sp = cid then (Inr (), p, []) else (Inl NetworkMismatch, p, []))"

text \<open>
  \<^verbatim>\<open>await\<close> of a step, then the rest of the method: an error of the step is the error of
  the method, and the reads of both are issued in order.
\<close>

definition andThen :: "'a outcome \<Rightarrow> ('a \<Rightarrow> PrizePool \<Rightarrow> 'b outcome) \<Rightarrow> 'b outcome" where
  "andThen m f =
     (case m of
        (Inl err, p, rs) \<Rightarrow> (Inl err, p, rs)
      | (Inr x, p, rs) \<Rightarrow> (case f x p of (res, p', rs') \<Rightarrow> (res, p', rs @ rs')))"

text \<open>One read through \<^verbatim>\<open>contract.functions\<close>: issued, then its first output or its failure.\<close>

definition await_read :: "read \<Rightarrow> 'a option \<Rightarrow> PrizePool \<Rightarrow> 'a outcome" where
  "await_read r reply p =
     (case reply of
        None \<Rightarrow> (Inl ResolutionFailure, p, [r])
      | Some v \<Rightarrow> (Inr v, p, [r]))"

text \<open>
  Modelled from the spec: \<^verbatim>\<open>getUserERC20Balance\<close> (\<^verbatim>\<open>./utils\<close>) is not among the sources;
  the spec has a balance accessor issue exactly one read call and return the decoded result.
\<close>

definition getUserERC20Balance :: "ethers \<Rightarrow> string \<Rightarrow> EthersContract \<Rightarrow> PrizePool \<Rightarrow> nat outcome" where
  "getUserERC20Balance e usersAddress c p =
     await_read (Read_balanceOf c usersAddress) (balanceOf e c usersAddress) p"

subsection \<open>The accessors that take an address\<close>

record PrizePoolTokenBalances =
  bal_token :: nat
  bal_ticket :: nat

text \<open>
  \<^verbatim>\<open>getUserPrizePoolBalances\<close> creates both balance promises before it awaits either, so
  both reads are issued; \<^verbatim>\<open>Promise.all\<close> then fails when one of them fails.
\<close>

definition getUserPrizePoolBalances :: "ethers \<Rightarrow> string \<Rightarrow> PrizePool \<Rightarrow> PrizePoolTokenBalances outcome" where
  "getUserPrizePoolBalances e usersAddress p =
     andThen (validateAddress e usersAddress p) (\<lambda>_ p.
     andThen (validateSignerOrProviderNetwork (signerOrProvider p) (pp_chainId p) p) (\<lambda>_ p.
     andThen (getTokenContract e p) (\<lambda>tokenContract' p.
     andThen (getTicketContract e p) (\<lambda>ticketContract' p.
       (case (balanceOf e tokenContract' usersAddress, balanceOf e ticketContract' usersAddress) of
          (Some token, Some ticket) \<Rightarrow> Inr \<lparr>bal_token = token, bal_ticket = ticket\<rparr>
        | _ \<Rightarrow> Inl ResolutionFailure,
        p,
        [Read_balanceOf tokenContract' usersAddress, Read_balanceOf ticketContract' usersAddress])))))"

definition getUserTicketBalance :: "ethers \<Rightarrow> string \<Rightarrow> PrizePool \<Rightarrow> nat outcome" where
  "getUserTicketBalance e usersAddress p =
     andThen (validateAddress e usersAddress p) (\<lambda>_ p.
     andThen (validateSignerOrProviderNetwork (signerOrProvider p) (pp_chainId p) p) (\<lambda>_ p.
     andThen (getTicketContract e p) (\<lambda>ticketContract' p.
       getUserERC20Balance e usersAddress ticketContract' p)))"

definition getUserTicketTwabAt :: "ethers \<Rightarrow> string \<Rightarrow> nat \<Rightarrow> PrizePool \<Rightarrow> nat outcome" where
  "getUserTicketTwabAt e usersAddress unixTimestamp p =
     andThen (validateAddress e usersAddress p) (\<lambda>_ p.
     andThen (validateSignerOrProviderNetwork (signerOrProvider p) (pp_chainId p) p) (\<lambda>_ p.
     andThen (getTicketContract e p) (\<lambda>ticketContract' p.
       await_read (Read_getBalanceAt ticketContract' usersAddress unixTimestamp)
         (getBalanceAt e ticketContract' usersAddress unixTimestamp) p)))"

definition getUserTokenBalance :: "ethers \<Rightarrow> string \<Rightarrow> PrizePool \<Rightarrow> nat outcome" where
  "getUserTokenBalance e usersAddress p =
     andThen (validateAddress e usersAddress p) (\<lambda>_ p.
     andThen (validateSignerOrProviderNetwork (signerOrProvider p) (pp_chainId p) p) (\<lambda>_ p.
     andThen (getTokenContract e p) (\<lambda>tokenContract' p.
       getUserERC20Balance e usersAddress tokenContract' p)))"

record DepositAllowance =
  allowanceUnformatted :: nat
  isApproved :: bool

definition getUserDepositAllowance :: "ethers \<Rightarrow> string \<Rightarrow> PrizePool \<Rightarrow> DepositAllowance outcome" where
  "getUserDepositAllowance e usersAddress p =
     andThen (validateAddress e usersAddress p) (\<lambda>_ p.
     andThen (validateSignerOrProviderNetwork (signerOrProvider p) (pp_chainId p) p) (\<lambda>_ p.
     andThen (getTokenContract e p) (\<lambda>tokenContract' p.
       (let prizePoolAddress = address (prizePoolMetadata p)
        in andThen
             (await_read (Read_allowance tokenContract' usersAddress prizePoolAddress)
                (allowance e tokenContract' usersAddress prizePoolAddress) p)
             (\<lambda>allowanceUnformatted' p.
                (Inr \<lparr>allowanceUnformatted = allowanceUnformatted',
                      isApproved = (\<not> (allowanceUnformatted' = 0))\<rparr>, p, []))))))"

text \<open>\<^verbatim>\<open>getUserTicketDelegate\<close> validates the address and goes on to the ticket contract.\<close>

definition getUserTicketDelegate :: "ethers \<Rightarrow> string \<Rightarrow> PrizePool \<Rightarrow> string outcome" where
  "getUserTicketDelegate e usersAddress p =
     andThen (validateAddress e usersAddress p) (\<lambda>_ p.
     andThen (getTicketContract e p) (\<lambda>ticketContract' p.
       await_read (Read_delegateOf ticketContract' usersAddress)
         (delegateOf e ticketContract' usersAddress) p))"

subsection \<open>The accessors that take no address\<close>

text \<open>
  Modelled from the spec: \<^verbatim>\<open>getTokenData\<close> of \<^verbatim>\<open>./utils\<close>, which the methods
  \<^verbatim>\<open>getTokenData\<close> and \<^verbatim>\<open>getTicketData\<close> of the class return the result of, is not among the
  sources; the spec has the token metadata accessor issue exactly one read call and return
  the decoded name, symbol and decimals.
\<close>

definition utils_getTokenData :: "ethers \<Rightarrow> EthersContract \<Rightarrow> PrizePool \<Rightarrow> TokenData outcome" where
  "utils_getTokenData e c p = await_read (Read_tokenData c) (tokenData e c) p"

definition getTokenData :: "ethers \<Rightarrow> PrizePool \<Rightarrow> TokenData outcome" where
  "getTokenData e p =
     andThen (validateSignerOrProviderNetwork (signerOrProvider p) (pp_chainId p) p) (\<lambda>_ p.
     andThen (getTokenContract e p) (\<lambda>tokenContract' p.
       utils_getTokenData e tokenContract' p))"

definition getTicketData :: "ethers \<Rightarrow> PrizePool \<Rightarrow> TokenData outcome" where
  "getTicketData e p =
     andThen (validateSignerOrProviderNetwork (signerOrProvider p) (pp_chainId p) p) (\<lambda>_ p.
     andThen (getTicketContract e p) (\<lambda>ticketContract' p.
       utils_getTokenData e ticketContract' p))"

definition getTicketTotalSupply :: "ethers \<Rightarrow> PrizePool \<Rightarrow> nat outcome" where
  "getTicketTotalSupply e p =
     andThen (validateSignerOrProviderNetwork (signerOrProvider p) (pp_chainId p) p) (\<lambda>_ p.
     andThen (getTicketContract e p) (\<lambda>ticketContract' p.
       await_read (Read_totalSupply ticketContract') (totalSupply e ticketContract') p))"

definition getTicketTwabTotalSupplyAt :: "ethers \<Rightarrow> nat \<Rightarrow> PrizePool \<Rightarrow> nat outcome" where
  "getTicketTwabTotalSupplyAt e unixTimestamp p =
     andThen (validateSignerOrProviderNetwork (signerOrProvider p) (pp_chainId p) p) (\<lambda>_ p.
     andThen (getTicketContract e p) (\<lambda>ticketContract' p.
       await_read (Read_getTotalSupplyAt ticketContract' unixTimestamp)
         (getTotalSupplyAt e ticketContract' unixTimestamp) p))"


subsection \<open>Two calls of getTokenContract in flight\<close>

text \<open>
  JavaScript runs one part of one call at a time. A caller that calls \<^verbatim>\<open>getTokenContract\<close>
  runs its first part at once; a read that settles runs the second part of the call that
  awaits it. \<open>Settle i reply\<close> settles the read of the \<open>i\<close>-th call with \<open>reply\<close>.
\<close>

datatype task = Pending | Settled "error + EthersContract"

record machine =
  m_pool :: PrizePool
  m_reads :: "read list"
  m_tasks :: "task list"

datatype event = Call | Settle nat "string option"

definition start :: "PrizePool \<Rightarrow> machine" where
  "start p = \<lparr>m_pool = p, m_reads = [], m_tasks = []\<rparr>"

definition step :: "event \<Rightarrow> machine \<Rightarrow> machine" where
  "step ev m =
     (case ev of
        Call \<Rightarrow>
          (case getTokenContract_call (m_pool m) of
             Returned c \<Rightarrow> m\<lparr>m_tasks := m_tasks m @ [Settled (Inr c)]\<rparr>
           | Awaiting r \<Rightarrow> m\<lparr>m_reads := m_reads m @ [r], m_tasks := m_tasks m @ [Pending]\<rparr>)
      | Settle i reply \<Rightarrow>
          (if i < length (m_tasks m) \<and> m_tasks m ! i = Pending
           then (let (res, p') = getTokenContract_resume reply (m_pool m)
                 in m\<lparr>m_pool := p', m_tasks := (m_tasks m)[i := Settled res]\<rparr>)
           else m))"

fun run :: "event list \<Rightarrow> machine \<Rightarrow> machine" where
  "run [] m = m"
| "run (ev # evs) m = run evs (step ev m)"

text \<open>The contract the second part builds for pool \<open>p\<close> from the address read.\<close>

definition token_handle :: "PrizePool \<Rightarrow> string \<Rightarrow> EthersContract" where
  "token_handle p a = new_Contract a ERC20Abi (signerOrProvider p)"

subsection \<open>Calls in sequence\<close>

text \<open>
  The ten read functions of the class (PrizePool.ts 74-217), as the calls a caller can make
  one after the other.
\<close>

datatype accessor =
  GetUserPrizePoolBalances string
  | GetUserTicketBalance string
  | GetUserTicketTwabAt string nat
  | GetUserTokenBalance string
  | GetUserDepositAllowance string
  | GetUserTicketDelegate string
  | GetTokenData
  | GetTicketData
  | GetTicketTotalSupply
  | GetTicketTwabTotalSupplyAt nat

datatype answer =
  Balances PrizePoolTokenBalances
  | Amount nat
  | Allowance DepositAllowance
  | Delegate string
  | Data TokenData

definition returning :: "('a \<Rightarrow> answer) \<Rightarrow> 'a outcome \<Rightarrow> answer outcome" where
  "returning f m = (case m of (res, p, rs) \<Rightarrow> (map_sum id f res, p, rs))"

fun invoke :: "ethers \<Rightarrow> accessor \<Rightarrow> PrizePool \<Rightarrow> answer outcome" where
  "invoke e (GetUserPrizePoolBalances a) p = returning Balances (getUserPrizePoolBalances e a p)"
| "invoke e (GetUserTicketBalance a) p = returning Amount (getUserTicketBalance e a p)"
| "invoke e (GetUserTicketTwabAt a t) p = returning Amount (getUserTicketTwabAt e a t p)"
| "invoke e (GetUserTokenBalance a) p = returning Amount (getUserTokenBalance e a p)"
| "invoke e (GetUserDepositAllowance a) p = returning Allowance (getUserDepositAllowance e a p)"
| "invoke e (GetUserTicketDelegate a) p = returning Delegate (getUserTicketDelegate e a p)"
| "invoke e GetTokenData p = returning Data (getTokenData e p)"
| "invoke e GetTicketData p = returning Data (getTicketData e p)"
| "invoke e GetTicketTotalSupply p = returning Amount (getTicketTotalSupply e p)"
| "invoke e (GetTicketTwabTotalSupplyAt t) p = returning Amount (getTicketTwabTotalSupplyAt e t p)"

text \<open>
  Calls one after the other, each against the chain as it answers at that time; the result
  is the object after the last call and all reads issued.
\<close>

fun invoke_all :: "(ethers \<times> accessor) list \<Rightarrow> PrizePool \<Rightarrow> PrizePool \<times> read list" where
  "invoke_all [] p = (p, [])"
| "invoke_all ((e, a) # cs) p =
     (case invoke e a p of
        (res, p', rs) \<Rightarrow> (case invoke_all cs p' of (p'', rs') \<Rightarrow> (p'', rs @ rs')))"

text \<open>The child contracts an accessor asks for, and the two reads that resolve them.\<close>

fun resolves_token :: "accessor \<Rightarrow> bool" where
  "resolves_token (GetUserPrizePoolBalances a) = True"
| "resolves_token (GetUserTokenBalance a) = True"
| "resolves_token (GetUserDepositAllowance a) = True"
| "resolves_token GetTokenData = True"
| "resolves_token _ = False"

fun resolves_ticket :: "accessor \<Rightarrow> bool" where
  "resolves_ticket (GetUserPrizePoolBalances a) = True"
| "resolves_ticket (GetUserTicketBalance a) = True"
| "resolves_ticket (GetUserTicketTwabAt a t) = True"
| "resolves_ticket (GetUserTicketDelegate a) = True"
| "resolves_ticket GetTicketData = True"
| "resolves_ticket GetTicketTotalSupply = True"
| "resolves_ticket (GetTicketTwabTotalSupplyAt t) = True"
| "resolves_ticket _ = False"

fun is_getToken :: "read \<Rightarrow> bool" where
  "is_getToken (Read_getToken c) = True"
| "is_getToken r = False"

fun is_getTicket :: "read \<Rightarrow> bool" where
  "is_getTicket (Read_getTicket c) = True"
| "is_getTicket r = False"

subsection \<open>The constructor and initializePrizePools\<close>

type_synonym Providers = "nat \<Rightarrow> Provider option"

record ContractList =
  cl_name :: string
  contracts :: "ContractMetadata list"

text \<open>
  The constructor of the class (PrizePool.ts 43-65), the only one it has, with the parameters
  \<^verbatim>\<open>prizePoolMetadata\<close>, \<^verbatim>\<open>signerOrProvider\<close> and \<^verbatim>\<open>contractMetadataList\<close>. It calls the
  constructor of \<^verbatim>\<open>ContractWrapper\<close>, builds the ethers contract of the prize pool from the
  address and the abi of \<^verbatim>\<open>prizePoolMetadata\<close>, and sets the four child fields to
  \<^verbatim>\<open>undefined\<close>. This is the object it leaves when it is given a metadata and a provider
  and neither of the two constructors it calls throws. Modelled from the spec: the
  constructor of \<^verbatim>\<open>ContractWrapper\<close> is not among the sources; the spec has a handle hold
  the network id of its primary descriptor and the chain client it was built with.
\<close>

definition new_PrizePool :: "ContractMetadata \<Rightarrow> Provider \<Rightarrow> ContractMetadata list \<Rightarrow> PrizePool" where
  "new_PrizePool prizePoolMetadata' signerOrProvider' contractMetadataList =
     \<lparr>pp_chainId = chainId prizePoolMetadata',
      signerOrProvider = signerOrProvider',
      prizePoolMetadata = prizePoolMetadata',
      ticketMetadata = None,
      tokenMetadata = None,
      prizePoolContract =
        new_Contract (address prizePoolMetadata') (abi prizePoolMetadata') signerOrProvider',
      ticketContract = None,
      tokenContract = None\<rparr>"

text \<open>
  Whether \<^verbatim>\<open>new PrizePool(prizePoolMetadata, provider, contractList.contracts)\<close> throws is
  decided by the constructor of \<^verbatim>\<open>ContractWrapper\<close>, which is not among the sources, and by
  the constructor of the ethers contract; \<^verbatim>\<open>providers[chainId]\<close> is \<^verbatim>\<open>undefined\<close> for a
  network without a provider. The outcome of a construction, the pool or the error thrown,
  is therefore a parameter of \<^verbatim>\<open>initializePrizePools\<close>.
\<close>

type_synonym construction =
  "ContractMetadata \<Rightarrow> Provider option \<Rightarrow> ContractMetadata list \<Rightarrow> error + PrizePool"

text \<open>
  Modelled from the spec: \<^verbatim>\<open>getContractsByType\<close> (\<^verbatim>\<open>./utils\<close>) is not among the sources; the
  spec has it filter the descriptors to those with the given type tag.
\<close>

definition getContractsByType :: "ContractMetadata list \<Rightarrow> string \<Rightarrow> ContractMetadata list" where
  "getContractsByType cs ty = filter (\<lambda>c. type c = ty) cs"

text \<open>
  \<^verbatim>\<open>initializePrizePools\<close>: the loop pushes a pool when the constructor returns and writes
  the message of the error to the console when it throws. \<^verbatim>\<open>Array.map\<close> with a callback that
  can throw, used by LinkedPrizePool.ts, has no such handler: the first throw ends the map.
\<close>

fun map_throwing :: "('a \<Rightarrow> error + 'b) \<Rightarrow> 'a list \<Rightarrow> error + 'b list" where
  "map_throwing f [] = Inr []"
| "map_throwing f (x # xs) =
     (case f x of
        Inl err \<Rightarrow> Inl err
      | Inr y \<Rightarrow> (case map_throwing f xs of Inl err \<Rightarrow> Inl err | Inr ys \<Rightarrow> Inr (y # ys)))"


definition initializePrizePools ::
    "construction \<Rightarrow> ContractList \<Rightarrow> Providers \<Rightarrow> PrizePool list \<times> error list" where
  "initializePrizePools new_PrizePool' contractList providers =
     (let prizePoolMetadatas = getContractsByType (contracts contractList) ContractType_PrizePool
      in foldl
           (\<lambda>(prizePools, console) prizePoolMetadata'.
              (let provider = providers (chainId prizePoolMetadata')
               in case new_PrizePool' prizePoolMetadata' provider (contracts contractList) of
                    Inr pp \<Rightarrow> (prizePools @ [pp], console)
                  | Inl err \<Rightarrow> (prizePools, console @ [err])))
           ([], []) prizePoolMetadatas)"


section \<open>LinkedPrizePool.ts\<close>

subsection \<open>Objects used as dictionaries\<close>

text \<open>
  \<^verbatim>\<open>PrizePoolAddresses\<close> is an object keyed by prize pool address: an association list in
  the order of its keys, written with \<open>AList.update\<close> (an assignment to a key the object
  has replaces the value in place, one to a new key adds it last) and read with \<open>map_of\<close>.
  \<^verbatim>\<open>PrizePoolAddressesByChainId\<close> is only written and looked up: a map.
\<close>

record PrizePoolAddressPair =
  pa_token :: string
  pa_ticket :: string

type_synonym PrizePoolAddresses = "(string \<times> PrizePoolAddressPair) list"

type_synonym PrizePoolAddressesByChainId = "nat \<Rightarrow> PrizePoolAddresses option"

subsection \<open>etherplex\<close>

text \<open>
  \<^verbatim>\<open>etherplexContract(name, abi, address)\<close> starts a context; each method called on it adds
  one call to the context.
\<close>

record Context =
  ctx_name :: string
  ctx_abi :: abi
  ctx_address :: string
  ctx_calls :: "string list"

definition etherplexContract :: "string \<Rightarrow> abi \<Rightarrow> string \<Rightarrow> Context" where
  "etherplexContract name ab addr = \<lparr>ctx_name = name, ctx_abi = ab, ctx_address = addr, ctx_calls = []\<rparr>"

text \<open>
  What \<^verbatim>\<open>batch\<close> resolves to: an object keyed by context name; of an entry the code reads
  \<^verbatim>\<open>.token[0]\<close> and \<^verbatim>\<open>.ticket[0]\<close>, the first outputs of the two calls.
\<close>

record BatchEntry =
  be_token :: string
  be_ticket :: string

type_synonym BatchResult = "(string \<times> BatchEntry) list"

text \<open>
  The library outside the sources: \<open>declares\<close> says which methods the context of an abi
  has (one for every function the abi declares), and \<open>multicall\<close> what one batched read
  against a provider resolves to, or \<open>None\<close> when it rejects.
\<close>

record etherplex =
  declares :: "abi \<Rightarrow> string \<Rightarrow> bool"
  multicall :: "Provider \<Rightarrow> Context list \<Rightarrow> BatchResult option"

text \<open>
  A method called on a context, as in \<^verbatim>\<open>prizePoolEtherplexContract.token().ticket()\<close>: the
  context has the method only when its abi declares it (the code silences the type checker
  here, \<^verbatim>\<open>@ts-ignore: Property doesn't exist on MulticallContract\<close>); calling a property that
  is \<^verbatim>\<open>undefined\<close> is a TypeError.
\<close>

definition calling :: "etherplex \<Rightarrow> string \<Rightarrow> Context \<Rightarrow> error + Context" where
  "calling ep method ctx =
     (if declares ep (ctx_abi ctx) method
      then Inr (ctx\<lparr>ctx_calls := ctx_calls ctx @ [method]\<rparr>)
      else Inl TypeError)"

text \<open>
  \<^verbatim>\<open>batch(provider, ...batchCalls)\<close>. \<^verbatim>\<open>providers[chainId]\<close> is \<^verbatim>\<open>undefined\<close> for a network
  without a provider, and a batched read needs one: the first use of the provider throws on
  \<^verbatim>\<open>undefined\<close>, so the promise rejects.
\<close>

definition batch :: "etherplex \<Rightarrow> Provider option \<Rightarrow> Context list \<Rightarrow> BatchResult option" where
  "batch ep provider batchCalls =
     (case provider of
        None \<Rightarrow> None
      | Some pr \<Rightarrow> multicall ep pr batchCalls)"

subsection \<open>fetchPrizePoolAddressesByChainId\<close>

record BatchRequest =
  br_chainId :: nat
  br_provider :: "Provider option"
  br_calls :: "Context list"

record FetchedAddresses =
  fa_chainId :: nat
  addressesByPrizePool :: PrizePoolAddresses

text \<open>
  The promise of the function, fulfilled (\<open>Some\<close>) or rejected (\<open>None\<close>), and the calls of
  \<^verbatim>\<open>batch\<close> it made. The function is \<^verbatim>\<open>async\<close>: an error thrown while the contexts are
  built, before \<^verbatim>\<open>batch\<close> is called, rejects the promise.
\<close>

definition fetchPrizePoolAddressesByChainId ::
    "etherplex \<Rightarrow> nat \<Rightarrow> Provider option \<Rightarrow> ContractMetadata list
      \<Rightarrow> FetchedAddresses option \<times> BatchRequest list" where
  "fetchPrizePoolAddressesByChainId ep chainId' provider prizePoolContracts =
     (case map_throwing
             (\<lambda>prizePoolContract'.
                (case calling ep ''token''
                        (etherplexContract (address prizePoolContract') (abi prizePoolContract')
                           (address prizePoolContract')) of
                   Inl err \<Rightarrow> Inl err
                 | Inr ctx \<Rightarrow> calling ep ''ticket'' ctx))
             prizePoolContracts of
        Inl err \<Rightarrow> (None, [])
      | Inr batchCalls \<Rightarrow>
          (let request = \<lparr>br_chainId = chainId', br_provider = provider, br_calls = batchCalls\<rparr>
           in case batch ep provider batchCalls of
                None \<Rightarrow> (None, [request])
              | Some result \<Rightarrow>
                  (Some \<lparr>fa_chainId = chainId',
                         addressesByPrizePool =
                           foldl (\<lambda>acc (prizePoolAddress, entry).
                                    AList.update prizePoolAddress
                                      \<lparr>pa_token = be_token entry, pa_ticket = be_ticket entry\<rparr> acc)
                             [] result\<rparr>,
                   [request])))"

subsection \<open>extendContractsWithToken\<close>

definition createTokenContract :: "nat \<Rightarrow> string \<Rightarrow> ContractMetadata" where
  "createTokenContract chainId' address' =
     \<lparr>chainId = chainId', address = address', version = (1, 0, 0), type = ''Token'',
      abi = ERC20Abi, tags = [], extensions = Some \<lparr>children = None\<rparr>\<rparr>"

text \<open>\<^verbatim>\<open>contract.extensions?.children\<close>.\<close>

definition extensions_children :: "ContractMetadata \<Rightarrow> child list option" where
  "extensions_children c =
     (case extensions c of
        None \<Rightarrow> None
      | Some ext \<Rightarrow> children ext)"

text \<open>
  \<^verbatim>\<open>tokens\<close> are the children of every contract that has children (an array is truthy,
  also an empty one). The loop looks each of them up in \<^verbatim>\<open>contracts\<close>, the list the
  function was given, and pushes to \<^verbatim>\<open>updatedContracts\<close>, its copy.
\<close>

definition extendContractsWithToken :: "ContractMetadata list \<Rightarrow> ContractMetadata list" where
  "extendContractsWithToken contracts' =
     (let tokens =
            concat (map (\<lambda>contract. case extensions_children contract of None \<Rightarrow> [] | Some chs \<Rightarrow> chs)
                      (filter (\<lambda>contract. extensions_children contract \<noteq> None) contracts'))
      in foldl
           (\<lambda>updatedContracts token.
              (case find (\<lambda>contract. address contract = child_address token
                                      \<and> chainId contract = child_chainId token) contracts' of
                 None \<Rightarrow> updatedContracts @ [createTokenContract (child_chainId token) (child_address token)]
               | Some tokenContract' \<Rightarrow> updatedContracts))
           contracts' tokens)"

subsection \<open>createPrizePools and the class\<close>

text \<open>
  Modelled from the spec: a descriptor is a declared child of a parent when one of the
  parent's declared children names its network and address.
\<close>

definition isChildOf :: "ContractMetadata \<Rightarrow> ContractMetadata \<Rightarrow> bool" where
  "isChildOf parent c =
     (case extensions_children parent of
        None \<Rightarrow> False
      | Some chs \<Rightarrow> list_ex (\<lambda>ch. child_chainId ch = chainId c \<and> child_address ch = address c) chs)"

text \<open>
  Modelled from the spec: \<^verbatim>\<open>sortContractsByContractTypeAndChildren\<close> (\<^verbatim>\<open>./utils\<close>) is not
  among the sources. The spec has the builder make one group for every descriptor tagged as
  a primary pool, in input order, and locate for each group the descriptors of its declared
  children among the full descriptor list.
\<close>

definition sortContractsByContractTypeAndChildren ::
    "ContractMetadata list \<Rightarrow> string \<Rightarrow> ContractMetadata list list" where
  "sortContractsByContractTypeAndChildren contracts' contractType =
     map (\<lambda>parent. parent # filter (isChildOf parent) contracts')
       (filter (\<lambda>c. type c = contractType) contracts')"

text \<open>
  \<^verbatim>\<open>new PrizePool(provider, contracts)\<close> (LinkedPrizePool.ts 88). The class imported from
  \<^verbatim>\<open>./PrizePool\<close> has one constructor, with the parameters \<^verbatim>\<open>prizePoolMetadata\<close>,
  \<^verbatim>\<open>signerOrProvider\<close> and \<^verbatim>\<open>contractMetadataList\<close> (PrizePool.ts 43-65), so this call binds
  \<^verbatim>\<open>prizePoolMetadata\<close> to the provider, \<^verbatim>\<open>signerOrProvider\<close> to the contracts of the group
  and \<^verbatim>\<open>contractMetadataList\<close> to \<^verbatim>\<open>undefined\<close>. Lines 50-54 then evaluate
  \<^verbatim>\<open>new Contract(provider.address, provider.abi, contracts)\<close>: for a network without a
  provider reading \<^verbatim>\<open>address\<close> of \<^verbatim>\<open>undefined\<close> is a TypeError; a provider has neither an
  address nor an abi, and the constructor of an ethers contract throws when it is given no
  abi (it also refuses an array where it expects a signer or a provider). Whatever the
  constructor of \<^verbatim>\<open>ContractWrapper\<close> does before that, the call never returns an object.
\<close>

definition new_PrizePool_of_provider ::
    "Provider option \<Rightarrow> ContractMetadata list \<Rightarrow> error + PrizePool" where
  "new_PrizePool_of_provider provider contracts' = Inl TypeError"

text \<open>
  \<^verbatim>\<open>createPrizePools\<close>: \<^verbatim>\<open>find\<close> is cast to \<^verbatim>\<open>Contract\<close>, so reading \<^verbatim>\<open>chainId\<close> of a group
  without a prize pool contract is a TypeError. Nothing in the function catches.
\<close>

definition createPrizePools :: "Providers \<Rightarrow> ContractMetadata list \<Rightarrow> error + PrizePool list" where
  "createPrizePools providers contracts' =
     (let prizePoolContractLists =
            sortContractsByContractTypeAndChildren contracts' ContractType_YieldSourcePrizePool
      in map_throwing
           (\<lambda>contracts''.
              (case find (\<lambda>contract. type contract = ContractType_YieldSourcePrizePool) contracts'' of
                 None \<Rightarrow> Inl TypeError
               | Some prizePoolContract' \<Rightarrow>
                   (let provider = providers (chainId prizePoolContract')
                    in new_PrizePool_of_provider provider contracts'')))
           prizePoolContractLists)"

record LinkedPrizePool =
  lpp_providers :: Providers
  prizePools :: "PrizePool list"
  contractList :: ContractList

definition new_LinkedPrizePool :: "Providers \<Rightarrow> ContractList \<Rightarrow> error + LinkedPrizePool" where
  "new_LinkedPrizePool providers linkedPrizePoolContractList =
     (case createPrizePools providers (contracts linkedPrizePoolContractList) of
        Inl err \<Rightarrow> Inl err
      | Inr pools \<Rightarrow>
          Inr \<lparr>lpp_providers = providers, prizePools = pools,
               contractList = linkedPrizePoolContractList\<rparr>)"

subsection \<open>initializeLinkedPrizePool\<close>

text \<open>
  Modelled from the spec: \<^verbatim>\<open>sortContractsByChainId\<close> (\<^verbatim>\<open>./utils\<close>) is not among the sources;
  the spec has it partition the descriptors by network id. The result is an object keyed by
  network id, whose keys JavaScript enumerates in ascending order.
\<close>

definition sortContractsByChainId :: "ContractMetadata list \<Rightarrow> (nat \<times> ContractMetadata list) list" where
  "sortContractsByChainId cs =
     map (\<lambda>cid. (cid, filter (\<lambda>c. chainId c = cid) cs)) (sort (remdups (map chainId cs)))"

text \<open>
  Modelled from the spec: \<^verbatim>\<open>extendContractWithChildren\<close> (\<^verbatim>\<open>./utils\<close>) is not among the
  sources. The spec has the discovered token and ticket addresses recorded as declared
  children on the corresponding primary descriptor, a descriptor never mutated (the
  descriptor with children is a new one), and the deployments of a network whose batch
  failed excluded from the augmented registry. A primary descriptor the batch of its network
  has no addresses for has nothing recorded on it.
\<close>

definition extendContractWithChildren ::
    "ContractMetadata list \<Rightarrow> PrizePoolAddressesByChainId \<Rightarrow> string \<Rightarrow> ContractMetadata list" where
  "extendContractWithChildren contracts' prizePoolAddressesByChainId contractType =
     concat (map
       (\<lambda>contract.
          if type contract \<noteq> contractType then [contract]
          else (case prizePoolAddressesByChainId (chainId contract) of
                  None \<Rightarrow> []
                | Some addressesByPrizePool' \<Rightarrow>
                    (case map_of addressesByPrizePool' (address contract) of
                       None \<Rightarrow> [contract]
                     | Some pair \<Rightarrow>
                         [contract\<lparr>extensions := Some \<lparr>children = Some
                            [\<lparr>child_chainId = chainId contract, child_address = pa_token pair\<rparr>,
                             \<lparr>child_chainId = chainId contract, child_address = pa_ticket pair\<rparr>]\<rparr>\<rparr>])))
       contracts')"

text \<open>
  \<^verbatim>\<open>initializeLinkedPrizePool\<close>: one fetch per key of \<^verbatim>\<open>prizePoolContractsByChainId\<close>, all
  settled; the fulfilled ones are pushed, the rejected ones logged; then the dictionary by
  network, the two extensions of the contract list and the constructor. The function
  returns the linked prize pool or the error it throws, and the calls of \<^verbatim>\<open>batch\<close> made.
\<close>

definition fetchAll ::
    "etherplex \<Rightarrow> Providers \<Rightarrow> ContractMetadata list \<Rightarrow> (FetchedAddresses option \<times> BatchRequest list) list" where
  "fetchAll ep providers contracts' =
     (let prizePoolContracts = getContractsByType contracts' ContractType_YieldSourcePrizePool;
          prizePoolContractsByChainId = sortContractsByChainId prizePoolContracts
      in map (\<lambda>(chainId', prizePoolContracts').
                fetchPrizePoolAddressesByChainId ep chainId' (providers chainId') prizePoolContracts')
           prizePoolContractsByChainId)"

definition addressesByChainId :: "FetchedAddresses option list \<Rightarrow> PrizePoolAddressesByChainId" where
  "addressesByChainId prizePoolAddressesResponses =
     (let prizePoolAddresses = List.map_filter (\<lambda>response. response) prizePoolAddressesResponses
      in foldl (\<lambda>prizePoolAddressesByChainId ppa.
                  prizePoolAddressesByChainId(fa_chainId ppa \<mapsto> addressesByPrizePool ppa))
           Map.empty prizePoolAddresses)"

definition initializeLinkedPrizePool ::
    "etherplex \<Rightarrow> Providers \<Rightarrow> ContractList \<Rightarrow> (error + LinkedPrizePool) \<times> BatchRequest list" where
  "initializeLinkedPrizePool ep providers linkedPrizePoolContractList =
     (let contracts' = contracts linkedPrizePoolContractList;
          responses = fetchAll ep providers contracts';
          prizePoolAddressesByChainId = addressesByChainId (map fst responses);
          contractsWithChildren =
            extendContractWithChildren contracts' prizePoolAddressesByChainId
              ContractType_YieldSourcePrizePool;
          contractsWithToken = extendContractsWithToken contractsWithChildren;
          updatedContractList = linkedPrizePoolContractList\<lparr>contracts := contractsWithToken\<rparr>
      in (new_LinkedPrizePool providers updatedContractList, concat (map snd responses)))"


section \<open>The contract list in a store\<close>

text \<open>
  In JavaScript the contract list is an array of references to contract objects, and the
  caller keeps its reference while \<^verbatim>\<open>initializeLinkedPrizePool\<close> runs. To say what happens
  to the caller's array, arrays and objects live in a store: a reference is an index, an
  array holds references, creating an array or an object adds it at the end of the store,
  and \<^verbatim>\<open>push\<close> changes the array it is called on in place.
\<close>

record store =
  objects :: "ContractMetadata list"
  arrays :: "nat list list"

text \<open>The contracts an array holds.\<close>

definition array_of :: "store \<Rightarrow> nat \<Rightarrow> ContractMetadata list" where
  "array_of st a = map (\<lambda>r. objects st ! r) (arrays st ! a)"

definition new_object :: "store \<Rightarrow> ContractMetadata \<Rightarrow> store \<times> nat" where
  "new_object st c = (st\<lparr>objects := objects st @ [c]\<rparr>, length (objects st))"

definition new_array :: "store \<Rightarrow> nat list \<Rightarrow> store \<times> nat" where
  "new_array st rs = (st\<lparr>arrays := arrays st @ [rs]\<rparr>, length (arrays st))"

definition push :: "store \<Rightarrow> nat \<Rightarrow> nat \<Rightarrow> store" where
  "push st a r = st\<lparr>arrays := (arrays st)[a := arrays st ! a @ [r]]\<rparr>"

text \<open>
  The body of the loop of \<^verbatim>\<open>extendContractsWithToken\<close>: \<^verbatim>\<open>contracts.find\<close> reads the array
  \<^verbatim>\<open>contracts\<close> as the store has it at that time, \<^verbatim>\<open>createTokenContract\<close> makes a new
  object, \<^verbatim>\<open>updatedContracts.push\<close> writes to the array \<^verbatim>\<open>updatedContracts\<close>.
\<close>

definition pushTokenIfAbsent :: "nat \<Rightarrow> nat \<Rightarrow> store \<Rightarrow> child \<Rightarrow> store" where
  "pushTokenIfAbsent contracts' updatedContracts st token =
     (case find (\<lambda>contract. address contract = child_address token
                             \<and> chainId contract = child_chainId token) (array_of st contracts') of
        None \<Rightarrow>
          (let (st', tokenRef) = new_object st (createTokenContract (child_chainId token) (child_address token))
           in push st' updatedContracts tokenRef)
      | Some tokenContract' \<Rightarrow> st)"

text \<open>
  \<^verbatim>\<open>extendContractsWithToken\<close> on the store: \<^verbatim>\<open>[...contracts]\<close> is a new array with the
  references of \<^verbatim>\<open>contracts\<close>; the function returns the reference of that array.
\<close>

definition extendContractsWithToken_st :: "store \<Rightarrow> nat \<Rightarrow> store \<times> nat" where
  "extendContractsWithToken_st st contracts' =
     (let (st1, updatedContracts) = new_array st (arrays st ! contracts');
          tokens =
            concat (map (\<lambda>contract. case extensions_children contract of None \<Rightarrow> [] | Some chs \<Rightarrow> chs)
                      (filter (\<lambda>contract. extensions_children contract \<noteq> None) (array_of st1 contracts')))
      in (foldl (pushTokenIfAbsent contracts' updatedContracts) st1 tokens, updatedContracts))"

text \<open>
  Modelled from the spec: \<^verbatim>\<open>extendContractWithChildren\<close> (\<^verbatim>\<open>./utils\<close>) is not among the
  sources. This is what it does with one contract of the list on the store: the cases are
  those of the function of the same name above, with what the spec says of descriptors: one
  is never mutated, so a descriptor that gets children is a new object and every other
  descriptor is passed on by reference.
\<close>

definition extendOne ::
    "PrizePoolAddressesByChainId \<Rightarrow> string \<Rightarrow> store \<times> nat list \<Rightarrow> nat \<Rightarrow> store \<times> nat list" where
  "extendOne m contractType acc r =
     (case acc of
        (st, refs) \<Rightarrow>
          (let contract = objects st ! r
           in if type contract \<noteq> contractType then (st, refs @ [r])
              else (case m (chainId contract) of
                      None \<Rightarrow> (st, refs)
                    | Some addressesByPrizePool' \<Rightarrow>
                        (case map_of addressesByPrizePool' (address contract) of
                           None \<Rightarrow> (st, refs @ [r])
                         | Some pair \<Rightarrow>
                             (let (st', r') =
                                    new_object st
                                      (contract\<lparr>extensions := Some \<lparr>children = Some
                                         [\<lparr>child_chainId = chainId contract, child_address = pa_token pair\<rparr>,
                                          \<lparr>child_chainId = chainId contract, child_address = pa_ticket pair\<rparr>]\<rparr>\<rparr>)
                              in (st', refs @ [r']))))))"

text \<open>
  Modelled from the spec: \<^verbatim>\<open>extendContractWithChildren\<close> on the store, not among the sources:
  every contract of the list in turn, the result a new array.
\<close>

definition extendContractWithChildren_st ::
    "store \<Rightarrow> nat \<Rightarrow> PrizePoolAddressesByChainId \<Rightarrow> string \<Rightarrow> store \<times> nat" where
  "extendContractWithChildren_st st contracts' m contractType =
     (case foldl (extendOne m contractType) (st, []) (arrays st ! contracts') of
        (st', refs) \<Rightarrow> new_array st' refs)"

text \<open>
  \<^verbatim>\<open>initializeLinkedPrizePool\<close> on the store. The contract list object holds the reference
  of its array; the fetches only read; \<^verbatim>\<open>{ ...linkedPrizePoolContractList, contracts:
  contractsWithToken }\<close> is a new object. The function returns what the function above
  returns, the store it leaves, and the new contract list object.
\<close>

record ContractListRef =
  clr_name :: string
  clr_contracts :: nat

definition initializeLinkedPrizePool_st ::
    "etherplex \<Rightarrow> Providers \<Rightarrow> store \<Rightarrow> ContractListRef
      \<Rightarrow> ((error + LinkedPrizePool) \<times> BatchRequest list) \<times> store \<times> ContractListRef" where
  "initializeLinkedPrizePool_st ep providers st linkedPrizePoolContractList =
     (let contracts' = clr_contracts linkedPrizePoolContractList;
          responses = fetchAll ep providers (array_of st contracts');
          prizePoolAddressesByChainId = addressesByChainId (map fst responses);
          (st1, contractsWithChildren) =
            extendContractWithChildren_st st contracts' prizePoolAddressesByChainId
              ContractType_YieldSourcePrizePool;
          (st2, contractsWithToken) = extendContractsWithToken_st st1 contractsWithChildren;
          updatedContractList = linkedPrizePoolContractList\<lparr>clr_contracts := contractsWithToken\<rparr>
      in ((new_LinkedPrizePool providers
             \<lparr>cl_name = clr_name updatedContractList,
              contracts = array_of st2 (clr_contracts updatedContractList)\<rparr>,
           concat (map snd responses)),
          st2, updatedContractList))"

text \<open>
  Store \<open>st'\<close> extends store \<open>st\<close>: every object and every array of \<open>st\<close> is in \<open>st'\<close>
  under the same reference and with the same content; \<open>st'\<close> may have more of both.
\<close>

definition extends :: "store \<Rightarrow> store \<Rightarrow> bool" where
  "extends st st' =
     (length (objects st) \<le> length (objects st') \<and> take (length (objects st)) (objects st') = objects st
      \<and> length (arrays st) \<le> length (arrays st') \<and> take (length (arrays st)) (arrays st') = arrays st)"

text \<open>References that point into the store, and an array of the store made of such.\<close>

definition valid_refs :: "store \<Rightarrow> nat list \<Rightarrow> bool" where
  "valid_refs st rs = list_all (\<lambda>r. r < length (objects st)) rs"

definition valid_array :: "store \<Rightarrow> nat \<Rightarrow> bool" where
  "valid_array st a = (a < length (arrays st) \<and> valid_refs st (arrays st ! a))"


section \<open>Notions the properties are stated with\<close>

text \<open>A deployment is named by its network and its address.\<close>

definition descriptor_key :: "ContractMetadata \<Rightarrow> nat \<times> string" where
  "descriptor_key c = (chainId c, address c)"

definition pool_key :: "PrizePool \<Rightarrow> nat \<times> string" where
  "pool_key p = (pp_chainId p, address (prizePoolMetadata p))"

text \<open>
  The batch of network \<open>cid\<close> is fulfilled: the fetch the assembler makes for that network,
  with the provider of the network and its prize pool contracts, resolves.
\<close>

definition batch_fulfilled :: "etherplex \<Rightarrow> Providers \<Rightarrow> ContractMetadata list \<Rightarrow> nat \<Rightarrow> bool" where
  "batch_fulfilled ep providers contracts' cid =
     (fst (fetchPrizePoolAddressesByChainId ep cid (providers cid)
             (filter (\<lambda>c. chainId c = cid)
                (getContractsByType contracts' ContractType_YieldSourcePrizePool))) \<noteq> None)"

text \<open>The children \<open>extendContractsWithToken\<close> finds no contract for in the list it is given.\<close>

definition newTokens :: "ContractMetadata list \<Rightarrow> child list" where
  "newTokens cs =
     filter (\<lambda>token. find (\<lambda>contract. address contract = child_address token
                                      \<and> chainId contract = child_chainId token) cs = None)
       (concat (map (\<lambda>contract. case extensions_children contract of None \<Rightarrow> [] | Some chs \<Rightarrow> chs)
                  (filter (\<lambda>contract. extensions_children contract \<noteq> None) cs)))"

text \<open>What recording the children does to a prize pool contract of a fulfilled network.\<close>

definition withChildren :: "PrizePoolAddressesByChainId \<Rightarrow> ContractMetadata \<Rightarrow> ContractMetadata" where
  "withChildren m c =
     (case m (chainId c) of
        None \<Rightarrow> c
      | Some addrs \<Rightarrow>
          (case map_of addrs (address c) of
             None \<Rightarrow> c
           | Some pair \<Rightarrow>
               c\<lparr>extensions := Some \<lparr>children = Some
                  [\<lparr>child_chainId = chainId c, child_address = pa_token pair\<rparr>,
                   \<lparr>child_chainId = chainId c, child_address = pa_ticket pair\<rparr>]\<rparr>\<rparr>))"

text \<open>The context has the two methods the fetch calls on it.\<close>

definition callable :: "etherplex \<Rightarrow> ContractMetadata \<Rightarrow> bool" where
  "callable ep c = (declares ep (abi c) ''token'' \<and> declares ep (abi c) ''ticket'')"

text \<open>The context the fetch builds for a prize pool contract.\<close>

definition contextOf :: "ContractMetadata \<Rightarrow> Context" where
  "contextOf c =
     \<lparr>ctx_name = address c, ctx_abi = abi c, ctx_address = address c,
      ctx_calls = [''token'', ''ticket'']\<rparr>"

definition pairOf :: "BatchEntry \<Rightarrow> PrizePoolAddressPair" where
  "pairOf entry = \<lparr>pa_token = be_token entry, pa_ticket = be_ticket entry\<rparr>"


section \<open>Example values\<close>

definition example_provider :: Provider where
  "example_provider = \<lparr>network = 1\<rparr>"

definition example_metadata :: ContractMetadata where
  "example_metadata =
     \<lparr>chainId = 1, address = ''0xPool'', version = (1, 0, 0), type = ''PrizePool'',
      abi = ''PrizePoolAbi'', tags = [], extensions = None\<rparr>"

text \<open>The pool the constructor builds from \<open>example_metadata\<close> and \<open>example_provider\<close>.\<close>

definition example_pool :: PrizePool where
  "example_pool =
     \<lparr>pp_chainId = 1, signerOrProvider = example_provider, prizePoolMetadata = example_metadata,
      ticketMetadata = None, tokenMetadata = None,
      prizePoolContract = new_Contract ''0xPool'' ''PrizePoolAbi'' example_provider,
      ticketContract = None, tokenContract = None\<rparr>"

text \<open>The same deployment behind a provider that is connected to network 5.\<close>

definition mismatched_pool :: PrizePool where
  "mismatched_pool =
     \<lparr>pp_chainId = 1, signerOrProvider = \<lparr>network = 5\<rparr>, prizePoolMetadata = example_metadata,
      ticketMetadata = None, tokenMetadata = None,
      prizePoolContract = new_Contract ''0xPool'' ''PrizePoolAbi'' \<lparr>network = 5\<rparr>,
      ticketContract = None, tokenContract = None\<rparr>"

text \<open>The example pool once both child contracts are resolved on \<open>example_chain\<close>.\<close>

definition resolved_pool :: PrizePool where
  "resolved_pool =
     example_pool
       \<lparr>ticketMetadata := Some (createContractMetadata 1 ''0xTicket'' ''Ticket'' TicketAbi),
        tokenMetadata := Some (createContractMetadata 1 ''0xToken'' ''Token'' ERC20Abi),
        ticketContract := Some (new_Contract ''0xTicket'' TicketAbi example_provider),
        tokenContract := Some (new_Contract ''0xToken'' ERC20Abi example_provider)\<rparr>"

text \<open>A chain on which every read answers but \<^verbatim>\<open>getBalanceAt\<close>, which reverts.\<close>

definition example_chain :: ethers where
  "example_chain =
     \<lparr>isAddress = (\<lambda>a. take 2 a = ''0x''),
      getToken = (\<lambda>c. Some ''0xToken''),
      getTicket = (\<lambda>c. Some ''0xTicket''),
      balanceOf = (\<lambda>c a. Some 7),
      getBalanceAt = (\<lambda>c a t. None),
      allowance = (\<lambda>c a b. Some 5),
      delegateOf = (\<lambda>c a. Some ''0xDelegate''),
      totalSupply = (\<lambda>c. Some 100),
      getTotalSupplyAt = (\<lambda>c t. Some 90),
      tokenData = (\<lambda>c. Some \<lparr>td_decimals = 6, td_name = ''Token'', td_symbol = ''TKN''\<rparr>)\<rparr>"

text \<open>A chain on which no read answers.\<close>

definition dead_chain :: ethers where
  "dead_chain =
     \<lparr>isAddress = (\<lambda>a. take 2 a = ''0x''),
      getToken = (\<lambda>c. None),
      getTicket = (\<lambda>c. None),
      balanceOf = (\<lambda>c a. None),
      getBalanceAt = (\<lambda>c a t. None),
      allowance = (\<lambda>c a b. None),
      delegateOf = (\<lambda>c a. None),
      totalSupply = (\<lambda>c. None),
      getTotalSupplyAt = (\<lambda>c t. None),
      tokenData = (\<lambda>c. None)\<rparr>"


definition descriptor :: "nat \<Rightarrow> string \<Rightarrow> string \<Rightarrow> ContractMetadata" where
  "descriptor cid addr ty =
     \<lparr>chainId = cid, address = addr, version = (1, 0, 0), type = ty, abi = ty @ ''Abi'',
      tags = [], extensions = None\<rparr>"

definition with_children :: "ContractMetadata \<Rightarrow> (nat \<times> string) list \<Rightarrow> ContractMetadata" where
  "with_children c chs =
     c\<lparr>extensions := Some \<lparr>children = Some (map (\<lambda>(cid, addr). \<lparr>child_chainId = cid, child_address = addr\<rparr>) chs)\<rparr>\<rparr>"

text \<open>
  A flat contract list: two prize pools and their tickets on network 1, one prize pool and
  its ticket on network 5; the token the two pools of network 1 share has no descriptor.
\<close>

definition example_contracts :: "ContractMetadata list" where
  "example_contracts =
     [descriptor 1 ''0xPoolA'' ''YieldSourcePrizePool'',
      descriptor 1 ''0xTicketA'' ''Ticket'',
      descriptor 5 ''0xPoolC'' ''YieldSourcePrizePool'',
      descriptor 1 ''0xPoolB'' ''YieldSourcePrizePool'',
      descriptor 1 ''0xTicketB'' ''Ticket'',
      descriptor 5 ''0xTicketC'' ''Ticket'']"

definition example_providers :: Providers where
  "example_providers =
     (\<lambda>n. if n = 1 then Some \<lparr>network = 1\<rparr> else if n = 5 then Some \<lparr>network = 5\<rparr> else None)"

text \<open>
  A construction that throws for the metadata of one address and returns the pool of the
  constructor for every other metadata that comes with a provider.
\<close>

definition throwing_for :: "string \<Rightarrow> construction" where
  "throwing_for addr prizePoolMetadata' provider contractMetadataList =
     (case provider of
        None \<Rightarrow> Inl ConstructionFailure
      | Some signerOrProvider' \<Rightarrow>
          if address prizePoolMetadata' = addr then Inl ConstructionFailure
          else Inr (new_PrizePool prizePoolMetadata' signerOrProvider' contractMetadataList))"

text \<open>
  The abi of a prize pool declares \<open>token\<close> and \<open>ticket\<close>; the multicall answers on
  network 1, with the same token for every pool and the ticket named after the pool, and
  rejects on every other network.
\<close>

definition example_etherplex :: etherplex where
  "example_etherplex =
     \<lparr>declares = (\<lambda>ab method. ab = ''YieldSourcePrizePoolAbi'' \<and> (method = ''token'' \<or> method = ''ticket'')),
      multicall = (\<lambda>pr calls.
        if network pr = 1
        then Some (map (\<lambda>ctx. (ctx_name ctx,
                               \<lparr>be_token = ''0xToken'', be_ticket = ''0xTicket'' @ drop 6 (ctx_name ctx)\<rparr>))
                     calls)
        else None)\<rparr>"


definition example_contract_list :: ContractList where
  "example_contract_list = \<lparr>cl_name = ''linked'', contracts = example_contracts\<rparr>"

text \<open>A store that holds the six example contracts and the array of the caller.\<close>

definition example_store :: store where
  "example_store = \<lparr>objects = example_contracts, arrays = [[0, 1, 2, 3, 4, 5]]\<rparr>"

definition example_contract_list_ref :: ContractListRef where
  "example_contract_list_ref = \<lparr>clr_name = ''linked'', clr_contracts = 0\<rparr>"

text \<open>The contract list of network 1 after the children are recorded on its two pools.\<close>

definition contracts_with_children :: "ContractMetadata list" where
  "contracts_with_children =
     [with_children (descriptor 1 ''0xPoolA'' ''YieldSourcePrizePool'') [(1, ''0xToken''), (1, ''0xTicketA'')],
      descriptor 1 ''0xTicketA'' ''Ticket'',
      with_children (descriptor 1 ''0xPoolB'' ''YieldSourcePrizePool'') [(1, ''0xToken''), (1, ''0xTicketB'')],
      descriptor 1 ''0xTicketB'' ''Ticket'']"


section \<open>Properties of PrizePool.ts\<close>

subsection \<open>The two child contracts, case by case\<close>

lemma getTokenContract_cases:
  "getTokenContract e p =
     (case tokenContract p of
        Some c \<Rightarrow> (Inr c, p, [])
      | None \<Rightarrow>
          (case getToken e (prizePoolContract p) of
             None \<Rightarrow> (Inl ResolutionFailure, p, [Read_getToken (prizePoolContract p)])
           | Some a \<Rightarrow>
               (Inr (new_Contract a ERC20Abi (signerOrProvider p)),
                p\<lparr>tokenMetadata := Some (createContractMetadata (pp_chainId p) a ContractType_Token ERC20Abi),
                  tokenContract := Some (new_Contract a ERC20Abi (signerOrProvider p))\<rparr>,
                [Read_getToken (prizePoolContract p)])))"
  by (simp add: getTokenContract_def getTokenContract_call_def getTokenContract_resume_def
      createContractMetadata_def Let_def split: option.splits)

lemma getTicketContract_cases:
  "getTicketContract e p =
     (case ticketContract p of
        Some c \<Rightarrow> (Inr c, p, [])
      | None \<Rightarrow>
          (case getTicket e (prizePoolContract p) of
             None \<Rightarrow> (Inl ResolutionFailure, p, [Read_getTicket (prizePoolContract p)])
           | Some a \<Rightarrow>
               (Inr (new_Contract a TicketAbi (signerOrProvider p)),
                p\<lparr>ticketMetadata := Some (createContractMetadata (pp_chainId p) a ContractType_Ticket TicketAbi),
                  ticketContract := Some (new_Contract a TicketAbi (signerOrProvider p))\<rparr>,
                [Read_getTicket (prizePoolContract p)])))"
  by (simp add: getTicketContract_def getAndSetEthersContract_def
      createContractMetadata_def Let_def split: option.splits)

lemma getTokenContract_cached:
  "tokenContract p = Some c \<Longrightarrow> getTokenContract e p = (Inr c, p, [])"
  by (simp add: getTokenContract_cases)

lemma getTicketContract_cached:
  "ticketContract p = Some c \<Longrightarrow> getTicketContract e p = (Inr c, p, [])"
  by (simp add: getTicketContract_cases)

lemma getTokenContract_twice:
  assumes "getTokenContract e p = (Inr c, p1, rs)"
  shows "getTokenContract e' p1 = (Inr c, p1, []) \<and> length rs \<le> 1"
  using assms by (auto simp: getTokenContract_cases split: option.splits)

lemma new_PrizePool_example:
  "new_PrizePool example_metadata example_provider [] = example_pool"
  by (simp add: new_PrizePool_def example_pool_def example_metadata_def)

text \<open>
  The machine agrees with the method when nothing interleaves: a call and the settling of
  its read are one call of \<open>getTokenContract\<close>.
\<close>

lemma run_sequential:
  "tokenContract p = None \<Longrightarrow>
   run [Call, Settle 0 (getToken e (prizePoolContract p))] (start p) =
     (case getTokenContract e p of
        (res, p', rs) \<Rightarrow> \<lparr>m_pool = p', m_reads = rs, m_tasks = [Settled res]\<rparr>)"
  by (simp add: start_def step_def getTokenContract_def getTokenContract_call_def
      split: prod.splits)

subsection \<open>Accessors on a pool whose child contracts are cached\<close>

lemmas accessor_defs =
  getUserPrizePoolBalances_def getUserTicketBalance_def getUserTicketTwabAt_def
  getUserTokenBalance_def getUserDepositAllowance_def getUserTicketDelegate_def
  getTokenData_def getTicketData_def getTicketTotalSupply_def getTicketTwabTotalSupplyAt_def
  utils_getTokenData_def validateAddress_def validateSignerOrProviderNetwork_def getUserERC20Balance_def
  await_read_def returning_def

lemmas example_defs =
  example_pool_def example_provider_def example_metadata_def example_chain_def dead_chain_def
  resolved_pool_def mismatched_pool_def

lemma invoke_token_cached:
  assumes "tokenContract p = Some c" and "invoke e a p = (res, p', rs)"
  shows "tokenContract p' = Some c \<and> filter is_getToken rs = []"
  using assms
  by (cases a)
     (auto simp: accessor_defs andThen_def getTokenContract_cases getTicketContract_cases Let_def
           split: if_splits option.splits sum.splits prod.splits)

lemma invoke_ticket_cached:
  assumes "ticketContract p = Some c" and "invoke e a p = (res, p', rs)"
  shows "ticketContract p' = Some c \<and> filter is_getTicket rs = []"
  using assms
  by (cases a)
     (auto simp: accessor_defs andThen_def getTokenContract_cases getTicketContract_cases Let_def
           split: if_splits option.splits sum.splits prod.splits)

lemma invoke_all_token_cached:
  "tokenContract p = Some c \<Longrightarrow> invoke_all cs p = (p', rs)
     \<Longrightarrow> tokenContract p' = Some c \<and> filter is_getToken rs = []"
proof (induction cs arbitrary: p p' rs)
  case Nil
  then show ?case by simp
next
  case (Cons x cs)
  obtain e a where x: "x = (e, a)" by (cases x)
  obtain res p1 rs1 where i: "invoke e a p = (res, p1, rs1)" by (cases "invoke e a p")
  obtain p2 rs2 where r: "invoke_all cs p1 = (p2, rs2)" by (cases "invoke_all cs p1")
  from invoke_token_cached[OF Cons.prems(1) i]
  have 1: "tokenContract p1 = Some c" and 2: "filter is_getToken rs1 = []" by simp_all
  from Cons.IH[OF 1 r] have "tokenContract p2 = Some c" and "filter is_getToken rs2 = []" by simp_all
  with Cons.prems(2) x i r 2 show ?case by auto
qed

lemma invoke_all_ticket_cached:
  "ticketContract p = Some c \<Longrightarrow> invoke_all cs p = (p', rs)
     \<Longrightarrow> ticketContract p' = Some c \<and> filter is_getTicket rs = []"
proof (induction cs arbitrary: p p' rs)
  case Nil
  then show ?case by simp
next
  case (Cons x cs)
  obtain e a where x: "x = (e, a)" by (cases x)
  obtain res p1 rs1 where i: "invoke e a p = (res, p1, rs1)" by (cases "invoke e a p")
  obtain p2 rs2 where r: "invoke_all cs p1 = (p2, rs2)" by (cases "invoke_all cs p1")
  from invoke_ticket_cached[OF Cons.prems(1) i]
  have 1: "ticketContract p1 = Some c" and 2: "filter is_getTicket rs1 = []" by simp_all
  from Cons.IH[OF 1 r] have "ticketContract p2 = Some c" and "filter is_getTicket rs2 = []" by simp_all
  with Cons.prems(2) x i r 2 show ?case by auto
qed

text \<open>
  A call keeps the prize pool contract, issues one read at most for each child, and when it
  issued the read and the read is answered, it leaves the child cached.
\<close>

lemma invoke_token_read:
  assumes "invoke e a p = (res, p', rs)"
  shows "prizePoolContract p' = prizePoolContract p
       \<and> length (filter is_getToken rs) \<le> 1
       \<and> (filter is_getToken rs \<noteq> [] \<longrightarrow> getToken e (prizePoolContract p) \<noteq> None
            \<longrightarrow> tokenContract p' \<noteq> None)"
  using assms
  by (cases a)
     (auto simp: accessor_defs andThen_def getTokenContract_cases getTicketContract_cases Let_def
           split: if_splits option.splits sum.splits prod.splits)

lemma invoke_ticket_read:
  assumes "invoke e a p = (res, p', rs)"
  shows "prizePoolContract p' = prizePoolContract p
       \<and> length (filter is_getTicket rs) \<le> 1
       \<and> (filter is_getTicket rs \<noteq> [] \<longrightarrow> getTicket e (prizePoolContract p) \<noteq> None
            \<longrightarrow> ticketContract p' \<noteq> None)"
  using assms
  by (cases a)
     (auto simp: accessor_defs andThen_def getTokenContract_cases getTicketContract_cases Let_def
           split: if_splits option.splits sum.splits prod.splits)

text \<open>Calls in sequence whose resolution read is answered issue it once at most.\<close>

lemma invoke_all_token_reads:
  "(\<And>x. x \<in> set cs \<Longrightarrow> getToken (fst x) (prizePoolContract p) \<noteq> None)
     \<Longrightarrow> length (filter is_getToken (snd (invoke_all cs p))) \<le> 1"
proof (induction cs arbitrary: p)
  case Nil
  then show ?case by simp
next
  case (Cons x cs)
  obtain e a where x: "x = (e, a)" by (cases x)
  obtain res p1 rs1 where i: "invoke e a p = (res, p1, rs1)" by (cases "invoke e a p")
  obtain p2 rs2 where r: "invoke_all cs p1 = (p2, rs2)" by (cases "invoke_all cs p1")
  from invoke_token_read [OF i]
  have same: "prizePoolContract p1 = prizePoolContract p"
    and one: "length (filter is_getToken rs1) \<le> 1"
    and cached: "filter is_getToken rs1 \<noteq> [] \<Longrightarrow> getToken e (prizePoolContract p) \<noteq> None
                   \<Longrightarrow> tokenContract p1 \<noteq> None"
    by simp_all
  from Cons.prems x have answered: "getToken e (prizePoolContract p) \<noteq> None" by fastforce
  have all: "snd (invoke_all (x # cs) p) = rs1 @ rs2" using x i r by simp
  show ?case
  proof (cases "filter is_getToken rs1 = []")
    case True
    from Cons.prems same have "\<And>y. y \<in> set cs \<Longrightarrow> getToken (fst y) (prizePoolContract p1) \<noteq> None"
      by simp
    from Cons.IH [OF this] r True all show ?thesis by simp
  next
    case False
    from cached [OF False answered] obtain c where "tokenContract p1 = Some c" by blast
    from invoke_all_token_cached [OF this r] one all show ?thesis by simp
  qed
qed

lemma invoke_all_ticket_reads:
  "(\<And>x. x \<in> set cs \<Longrightarrow> getTicket (fst x) (prizePoolContract p) \<noteq> None)
     \<Longrightarrow> length (filter is_getTicket (snd (invoke_all cs p))) \<le> 1"
proof (induction cs arbitrary: p)
  case Nil
  then show ?case by simp
next
  case (Cons x cs)
  obtain e a where x: "x = (e, a)" by (cases x)
  obtain res p1 rs1 where i: "invoke e a p = (res, p1, rs1)" by (cases "invoke e a p")
  obtain p2 rs2 where r: "invoke_all cs p1 = (p2, rs2)" by (cases "invoke_all cs p1")
  from invoke_ticket_read [OF i]
  have same: "prizePoolContract p1 = prizePoolContract p"
    and one: "length (filter is_getTicket rs1) \<le> 1"
    and cached: "filter is_getTicket rs1 \<noteq> [] \<Longrightarrow> getTicket e (prizePoolContract p) \<noteq> None
                   \<Longrightarrow> ticketContract p1 \<noteq> None"
    by simp_all
  from Cons.prems x have answered: "getTicket e (prizePoolContract p) \<noteq> None" by fastforce
  have all: "snd (invoke_all (x # cs) p) = rs1 @ rs2" using x i r by simp
  show ?case
  proof (cases "filter is_getTicket rs1 = []")
    case True
    from Cons.prems same have "\<And>y. y \<in> set cs \<Longrightarrow> getTicket (fst y) (prizePoolContract p1) \<noteq> None"
      by simp
    from Cons.IH [OF this] r True all show ?thesis by simp
  next
    case False
    from cached [OF False answered] obtain c where "ticketContract p1 = Some c" by blast
    from invoke_all_ticket_cached [OF this r] one all show ?thesis by simp
  qed
qed

subsection \<open>Validation\<close>

text \<open>Every accessor that takes an address rejects a malformed one before any read.\<close>

lemma invalid_address_first:
  "\<not> isAddress e u
   \<Longrightarrow> a \<in> {GetUserPrizePoolBalances u, GetUserTicketBalance u, GetUserTicketTwabAt u t,
            GetUserTokenBalance u, GetUserDepositAllowance u, GetUserTicketDelegate u}
   \<Longrightarrow> invoke e a p = (Inl InvalidAddress, p, [])"
  by (auto simp: accessor_defs andThen_def)

text \<open>
  Five of the six go on to compare the network of the provider with the chain of the pool,
  again before any read, and so do the four accessors that take no address;
  \<open>GetUserTicketDelegate\<close> is not among them.
\<close>

lemma network_mismatch_second:
  "network (signerOrProvider p) \<noteq> pp_chainId p \<Longrightarrow> isAddress e u
   \<Longrightarrow> a \<in> {GetUserPrizePoolBalances u, GetUserTicketBalance u, GetUserTicketTwabAt u t,
            GetUserTokenBalance u, GetUserDepositAllowance u,
            GetTokenData, GetTicketData, GetTicketTotalSupply, GetTicketTwabTotalSupplyAt t'}
   \<Longrightarrow> invoke e a p = (Inl NetworkMismatch, p, [])"
  by (auto simp: accessor_defs andThen_def)

subsection \<open>The claims about PrizePool.ts\<close>

text \<open>
  C1, as stated: on a pool with no cached token contract, two calls that run before the
  first resolution completes issue exactly one child-resolution read. \<open>getTokenContract\<close>
  has no guard: the second call finds the field still undefined and issues a read of its
  own. On the example pool, two calls followed by the settling of both reads issue two
  reads.
\<close>

theorem two_calls_two_reads:
  "length (m_reads (run [Call, Call, Settle 0 (Some ''0xToken''), Settle 1 (Some ''0xToken'')]
                      (start example_pool))) = 2"
  by (simp add: start_def step_def getTokenContract_call_def getTokenContract_resume_def
      createContractMetadata_def Let_def example_pool_def)

text \<open>
  C1, amended: on a pool with no cached token contract, a second call that starts after the
  first has resolved issues no read, so that one read is issued and both calls return the
  same contract; two calls that start before either read has settled issue one read each,
  each returns the contract built from the address its own read returned, and the cache
  ends with the contract of the call whose read settled last.
\<close>

theorem calls_in_flight:
  assumes "tokenContract p = None"
  shows "(let m = run [Call, Settle 0 (Some a), Call] (start p)
          in m_reads m = [Read_getToken (prizePoolContract p)]
           \<and> m_tasks m = [Settled (Inr (token_handle p a)), Settled (Inr (token_handle p a))]
           \<and> tokenContract (m_pool m) = Some (token_handle p a))
       \<and> (let m = run [Call, Call, Settle 0 (Some a), Settle 1 (Some b)] (start p)
          in m_reads m = [Read_getToken (prizePoolContract p), Read_getToken (prizePoolContract p)]
           \<and> m_tasks m = [Settled (Inr (token_handle p a)), Settled (Inr (token_handle p b))]
           \<and> tokenContract (m_pool m) = Some (token_handle p b))
       \<and> (let m = run [Call, Call, Settle 1 (Some b), Settle 0 (Some a)] (start p)
          in m_reads m = [Read_getToken (prizePoolContract p), Read_getToken (prizePoolContract p)]
           \<and> m_tasks m = [Settled (Inr (token_handle p a)), Settled (Inr (token_handle p b))]
           \<and> tokenContract (m_pool m) = Some (token_handle p a))"
  using assms
  by (simp add: start_def step_def getTokenContract_call_def getTokenContract_resume_def
      createContractMetadata_def token_handle_def Let_def)

theorem calls_in_flight_witness:
  "tokenContract example_pool = None
   \<and> m_reads (run [Call, Call, Settle 0 (Some ''0xToken''), Settle 1 (Some ''0xOther'')] (start example_pool))
       = [Read_getToken (prizePoolContract example_pool), Read_getToken (prizePoolContract example_pool)]
   \<and> m_tasks (run [Call, Call, Settle 0 (Some ''0xToken''), Settle 1 (Some ''0xOther'')] (start example_pool))
       = [Settled (Inr (token_handle example_pool ''0xToken'')),
          Settled (Inr (token_handle example_pool ''0xOther''))]
   \<and> m_reads (run [Call, Settle 0 (Some ''0xToken''), Call] (start example_pool))
       = [Read_getToken (prizePoolContract example_pool)]"
proof -
  have h: "tokenContract example_pool = None" by (simp add: example_pool_def)
  show ?thesis
    using h calls_in_flight [OF h, of "''0xToken''" "''0xOther''"] by (simp add: Let_def)
qed

text \<open>
  C3, as stated: two accessor calls in sequence issue at most one child-resolution read.
  \<open>getTokenContract\<close> assigns the cache only after its read has answered: when the read
  of the first call fails, nothing is cached and the second call reads again. On the
  example pool, two calls of \<open>getUserTokenBalance\<close> against a chain on which no read
  answers issue two \<open>getToken\<close> reads and leave the pool as it was.
\<close>

theorem failed_resolution_read_again:
  "invoke_all [(dead_chain, GetUserTokenBalance ''0xUser''),
               (dead_chain, GetUserTokenBalance ''0xUser'')] example_pool
     = (example_pool,
        [Read_getToken (new_Contract ''0xPool'' ''PrizePoolAbi'' example_provider),
         Read_getToken (new_Contract ''0xPool'' ''PrizePoolAbi'' example_provider)])"
  by (simp add: example_defs accessor_defs andThen_def getTokenContract_cases)

text \<open>
  C3, amended: once the token or the ticket contract of a pool is cached, every later call
  of any of the ten accessors, whatever the chain answers, leaves that contract in the cache
  and issues no read that resolves it; a call of \<open>getTokenContract\<close> that returned is
  followed by calls that return the same contract with no read; and accessor calls in
  sequence, as long as the chain answers the read that resolves a child, issue that read
  once at most over all of them, also when a call fails after its child is resolved.
\<close>

theorem resolve_once:
  "(tokenContract p = Some c \<longrightarrow>
      (case invoke_all cs p of (p', rs) \<Rightarrow> tokenContract p' = Some c \<and> filter is_getToken rs = []))
   \<and> (ticketContract p = Some d \<longrightarrow>
      (case invoke_all cs p of (p', rs) \<Rightarrow> ticketContract p' = Some d \<and> filter is_getTicket rs = []))
   \<and> (getTokenContract e q = (Inr h, q1, qs) \<longrightarrow>
      getTokenContract e' q1 = (Inr h, q1, []) \<and> length qs \<le> 1)
   \<and> ((\<forall>x \<in> set ds. getToken (fst x) (prizePoolContract r) \<noteq> None) \<longrightarrow>
      length (filter is_getToken (snd (invoke_all ds r))) \<le> 1)
   \<and> ((\<forall>x \<in> set ds. getTicket (fst x) (prizePoolContract r) \<noteq> None) \<longrightarrow>
      length (filter is_getTicket (snd (invoke_all ds r))) \<le> 1)"
proof (intro conjI impI)
  assume "tokenContract p = Some c"
  then show "case invoke_all cs p of (p', rs) \<Rightarrow> tokenContract p' = Some c \<and> filter is_getToken rs = []"
    using invoke_all_token_cached [of p c cs] by (cases "invoke_all cs p") simp
next
  assume "ticketContract p = Some d"
  then show "case invoke_all cs p of (p', rs) \<Rightarrow> ticketContract p' = Some d \<and> filter is_getTicket rs = []"
    using invoke_all_ticket_cached [of p d cs] by (cases "invoke_all cs p") simp
next
  assume "getTokenContract e q = (Inr h, q1, qs)"
  then show "getTokenContract e' q1 = (Inr h, q1, [])" and "length qs \<le> 1"
    using getTokenContract_twice by blast+
next
  assume "\<forall>x \<in> set ds. getToken (fst x) (prizePoolContract r) \<noteq> None"
  then show "length (filter is_getToken (snd (invoke_all ds r))) \<le> 1"
    using invoke_all_token_reads [of ds r] by blast
next
  assume "\<forall>x \<in> set ds. getTicket (fst x) (prizePoolContract r) \<noteq> None"
  then show "length (filter is_getTicket (snd (invoke_all ds r))) \<le> 1"
    using invoke_all_ticket_reads [of ds r] by blast
qed

theorem resolve_once_witness:
  "tokenContract resolved_pool = Some (new_Contract ''0xToken'' ERC20Abi example_provider)
   \<and> ticketContract resolved_pool = Some (new_Contract ''0xTicket'' TicketAbi example_provider)
   \<and> invoke_all [(dead_chain, GetUserTokenBalance ''0xUser''),
                 (example_chain, GetTicketTwabTotalSupplyAt 1700000000)] resolved_pool
       = (resolved_pool,
          [Read_balanceOf (new_Contract ''0xToken'' ERC20Abi example_provider) ''0xUser'',
           Read_getTotalSupplyAt (new_Contract ''0xTicket'' TicketAbi example_provider) 1700000000])
   \<and> getTokenContract example_chain example_pool
       = (Inr (new_Contract ''0xToken'' ERC20Abi example_provider),
          example_pool\<lparr>tokenMetadata := Some (createContractMetadata 1 ''0xToken'' ''Token'' ERC20Abi),
                       tokenContract := Some (new_Contract ''0xToken'' ERC20Abi example_provider)\<rparr>,
          [Read_getToken (new_Contract ''0xPool'' ''PrizePoolAbi'' example_provider)])
   \<and> getTokenContract dead_chain
        (example_pool\<lparr>tokenMetadata := Some (createContractMetadata 1 ''0xToken'' ''Token'' ERC20Abi),
                      tokenContract := Some (new_Contract ''0xToken'' ERC20Abi example_provider)\<rparr>)
       = (Inr (new_Contract ''0xToken'' ERC20Abi example_provider),
          example_pool\<lparr>tokenMetadata := Some (createContractMetadata 1 ''0xToken'' ''Token'' ERC20Abi),
                       tokenContract := Some (new_Contract ''0xToken'' ERC20Abi example_provider)\<rparr>,
          [])
   \<and> getToken example_chain (prizePoolContract example_pool) = Some ''0xToken''
   \<and> getTicket example_chain (prizePoolContract example_pool) = Some ''0xTicket''
   \<and> snd (invoke_all [(example_chain, GetUserTicketTwabAt ''0xUser'' 1700000000),
                      (example_chain, GetUserTokenBalance ''0xUser''),
                      (example_chain, GetUserPrizePoolBalances ''0xUser'')] example_pool)
       = [Read_getTicket (new_Contract ''0xPool'' ''PrizePoolAbi'' example_provider),
          Read_getBalanceAt (new_Contract ''0xTicket'' TicketAbi example_provider) ''0xUser'' 1700000000,
          Read_getToken (new_Contract ''0xPool'' ''PrizePoolAbi'' example_provider),
          Read_balanceOf (new_Contract ''0xToken'' ERC20Abi example_provider) ''0xUser'',
          Read_balanceOf (new_Contract ''0xToken'' ERC20Abi example_provider) ''0xUser'',
          Read_balanceOf (new_Contract ''0xTicket'' TicketAbi example_provider) ''0xUser'']
   \<and> length (filter is_getToken
        (snd (invoke_all [(example_chain, GetUserTicketTwabAt ''0xUser'' 1700000000),
                          (example_chain, GetUserTokenBalance ''0xUser''),
                          (example_chain, GetUserPrizePoolBalances ''0xUser'')] example_pool))) = 1
   \<and> length (filter is_getTicket
        (snd (invoke_all [(example_chain, GetUserTicketTwabAt ''0xUser'' 1700000000),
                          (example_chain, GetUserTokenBalance ''0xUser''),
                          (example_chain, GetUserPrizePoolBalances ''0xUser'')] example_pool))) = 1"
  using resolve_once
    [where p = resolved_pool and c = "new_Contract ''0xToken'' ERC20Abi example_provider"
       and cs = "[(dead_chain, GetUserTokenBalance ''0xUser''),
                  (example_chain, GetTicketTwabTotalSupplyAt 1700000000)]"
       and d = "new_Contract ''0xTicket'' TicketAbi example_provider"
       and e = example_chain and q = example_pool
       and h = "new_Contract ''0xToken'' ERC20Abi example_provider"
       and ?q1.0 = "example_pool\<lparr>tokenMetadata := Some (createContractMetadata 1 ''0xToken'' ''Token'' ERC20Abi),
                       tokenContract := Some (new_Contract ''0xToken'' ERC20Abi example_provider)\<rparr>"
       and qs = "[Read_getToken (new_Contract ''0xPool'' ''PrizePoolAbi'' example_provider)]"
       and e' = dead_chain
       and ds = "[(example_chain, GetUserTicketTwabAt ''0xUser'' 1700000000),
                  (example_chain, GetUserTokenBalance ''0xUser''),
                  (example_chain, GetUserPrizePoolBalances ''0xUser'')]"
       and r = example_pool]
  by (simp add: example_defs accessor_defs andThen_def getTokenContract_cases getTicketContract_cases
      ContractType_Token_def ContractType_Ticket_def)


text \<open>
  C10: for a well-formed address on a pool whose network matches and whose token contract
  resolves to \<open>c\<close>, \<open>getUserDepositAllowance\<close> reads the allowance on \<open>c\<close> from the
  user toward the address of the pool's own prize pool metadata, and returns that allowance
  with \<open>isApproved\<close> true exactly when it is not zero.
\<close>

theorem getUserDepositAllowance_result:
  assumes "isAddress e a" and "network (signerOrProvider p) = pp_chainId p"
      and "getTokenContract e p = (Inr c, p', rs)"
      and "allowance e c a (address (prizePoolMetadata p)) = Some n"
  shows "getUserDepositAllowance e a p =
           (Inr \<lparr>allowanceUnformatted = n, isApproved = (n \<noteq> 0)\<rparr>, p',
            rs @ [Read_allowance c a (address (prizePoolMetadata p))])"
  using assms
  by (auto simp: getUserDepositAllowance_def validateAddress_def validateSignerOrProviderNetwork_def
        andThen_def await_read_def getTokenContract_cases Let_def split: option.splits)

theorem getUserDepositAllowance_result_witness:
  "isAddress example_chain ''0xUser''
   \<and> network (signerOrProvider resolved_pool) = pp_chainId resolved_pool
   \<and> getTokenContract example_chain resolved_pool
       = (Inr (new_Contract ''0xToken'' ERC20Abi example_provider), resolved_pool, [])
   \<and> allowance example_chain (new_Contract ''0xToken'' ERC20Abi example_provider) ''0xUser'' ''0xPool'' = Some 5
   \<and> getUserDepositAllowance example_chain ''0xUser'' resolved_pool
       = (Inr \<lparr>allowanceUnformatted = 5, isApproved = True\<rparr>, resolved_pool,
          [Read_allowance (new_Contract ''0xToken'' ERC20Abi example_provider) ''0xUser'' ''0xPool''])
   \<and> getUserDepositAllowance (example_chain\<lparr>allowance := \<lambda>c a b. Some 0\<rparr>) ''0xUser'' resolved_pool
       = (Inr \<lparr>allowanceUnformatted = 0, isApproved = False\<rparr>, resolved_pool,
          [Read_allowance (new_Contract ''0xToken'' ERC20Abi example_provider) ''0xUser'' ''0xPool''])"
proof -
  let ?T = "new_Contract ''0xToken'' ERC20Abi example_provider"
  have 1: "isAddress example_chain ''0xUser''" by (simp add: example_chain_def)
  have 2: "network (signerOrProvider resolved_pool) = pp_chainId resolved_pool"
    by (simp add: resolved_pool_def example_pool_def example_provider_def)
  have 3: "getTokenContract e resolved_pool = (Inr ?T, resolved_pool, [])" for e
    by (simp add: getTokenContract_cases resolved_pool_def)
  have 4: "allowance example_chain ?T ''0xUser'' (address (prizePoolMetadata resolved_pool)) = Some 5"
    by (simp add: example_chain_def)
  have 5: "address (prizePoolMetadata resolved_pool) = ''0xPool''"
    by (simp add: resolved_pool_def example_pool_def example_metadata_def)
  have 6: "isAddress (example_chain\<lparr>allowance := \<lambda>c a b. Some 0\<rparr>) ''0xUser''"
    by (simp add: example_chain_def)
  have 7: "allowance (example_chain\<lparr>allowance := \<lambda>c a b. Some 0\<rparr>) ?T ''0xUser''
             (address (prizePoolMetadata resolved_pool)) = Some 0"
    by simp
  show ?thesis
    using 1 2 3 4 5 getUserDepositAllowance_result [OF 1 2 3 4]
      getUserDepositAllowance_result [OF 6 2 3 7]
    by simp
qed

text \<open>
  C5: every accessor that takes an address is to fail with \<open>NetworkMismatch\<close> before any
  read when the provider is connected to another network than the pool's.
  \<open>getUserTicketDelegate\<close> does not: on a pool of network 1 behind a provider connected
  to network 5, where \<open>getUserTicketBalance\<close> fails with \<open>NetworkMismatch\<close> and reads
  nothing, it issues both of its reads and returns the delegate.
\<close>

theorem getUserTicketDelegate_on_wrong_network:
  "network (signerOrProvider mismatched_pool) = 5 \<and> pp_chainId mismatched_pool = 1
   \<and> isAddress example_chain ''0xUser''
   \<and> getUserTicketBalance example_chain ''0xUser'' mismatched_pool
       = (Inl NetworkMismatch, mismatched_pool, [])
   \<and> getUserTicketDelegate example_chain ''0xUser'' mismatched_pool
       = (Inr ''0xDelegate'',
          mismatched_pool\<lparr>ticketMetadata := Some (createContractMetadata 1 ''0xTicket'' ''Ticket'' TicketAbi),
                           ticketContract := Some (new_Contract ''0xTicket'' TicketAbi \<lparr>network = 5\<rparr>)\<rparr>,
          [Read_getTicket (new_Contract ''0xPool'' ''PrizePoolAbi'' \<lparr>network = 5\<rparr>),
           Read_delegateOf (new_Contract ''0xTicket'' TicketAbi \<lparr>network = 5\<rparr>) ''0xUser''])"
  by (simp add: getUserTicketBalance_def getUserTicketDelegate_def validateAddress_def
      validateSignerOrProviderNetwork_def andThen_def await_read_def getTicketContract_cases
      mismatched_pool_def example_chain_def ContractType_Ticket_def)

section \<open>Properties of LinkedPrizePool.ts\<close>

subsection \<open>The fetch of one network\<close>

lemma map_throwing_all:
  "(\<And>x. x \<in> set xs \<Longrightarrow> f x = Inr (g x)) \<Longrightarrow> map_throwing f xs = Inr (map g xs)"
  by (induction xs) auto

lemma map_throwing_none:
  "(\<And>x. f x = Inl err) \<Longrightarrow> map_throwing f xs = (if xs = [] then Inr [] else Inl err)"
  by (cases xs) auto

text \<open>
  The contexts are built when every prize pool contract has the two methods; otherwise the
  first contract that lacks one ends the loop with a TypeError.
\<close>

lemma contexts_built:
  "map_throwing
     (\<lambda>c. case calling ep ''token'' (etherplexContract (address c) (abi c) (address c)) of
             Inl err \<Rightarrow> Inl err
           | Inr ctx \<Rightarrow> calling ep ''ticket'' ctx) pcs
   = (if list_all (callable ep) pcs then Inr (map contextOf pcs) else Inl TypeError)"
  by (induction pcs) (auto simp: calling_def etherplexContract_def contextOf_def callable_def)

lemma fetch_cases:
  "fetchPrizePoolAddressesByChainId ep cid prov pcs =
     (if list_all (callable ep) pcs
      then (case batch ep prov (map contextOf pcs) of
              None \<Rightarrow> (None, [\<lparr>br_chainId = cid, br_provider = prov, br_calls = map contextOf pcs\<rparr>])
            | Some result \<Rightarrow>
                (Some \<lparr>fa_chainId = cid,
                       addressesByPrizePool =
                         foldl (\<lambda>acc (k, entry). AList.update k (pairOf entry) acc) [] result\<rparr>,
                 [\<lparr>br_chainId = cid, br_provider = prov, br_calls = map contextOf pcs\<rparr>]))
      else (None, []))"
  by (simp add: fetchPrizePoolAddressesByChainId_def contexts_built Let_def pairOf_def
      split: option.splits)





lemma fetch_fulfilled:
  "fst (fetchPrizePoolAddressesByChainId ep cid prov pcs) = Some fa \<Longrightarrow> fa_chainId fa = cid \<and> prov \<noteq> None"
  by (auto simp: fetch_cases batch_def split: option.splits if_splits)

lemma keys_sortContractsByChainId:
  "map fst (sortContractsByChainId cs) = sort (remdups (map chainId cs))"
  by (simp add: sortContractsByChainId_def comp_def)







subsection \<open>The dictionary by network and the augmented list\<close>

lemma foldl_record_dom:
  "(foldl (\<lambda>m ppa. m(fa_chainId ppa \<mapsto> addressesByPrizePool ppa)) m0 xs cid \<noteq> None)
     = (m0 cid \<noteq> None \<or> cid \<in> fa_chainId ` set xs)"
  by (induction xs arbitrary: m0) auto

lemma set_map_filter_id: "set (List.map_filter (\<lambda>x. x) xs) = {y. Some y \<in> set xs}"
  by (induction xs) (auto simp: List.map_filter_simps split: option.splits)

lemma addressesByChainId_dom:
  "(addressesByChainId rs cid \<noteq> None) = (\<exists>fa. Some fa \<in> set rs \<and> fa_chainId fa = cid)"
proof -
  have "(foldl (\<lambda>m ppa. m(fa_chainId ppa \<mapsto> addressesByPrizePool ppa)) Map.empty
           (List.map_filter (\<lambda>x. x) rs) cid \<noteq> None)
          = (cid \<in> fa_chainId ` set (List.map_filter (\<lambda>x. x) rs))"
    by (simp only: foldl_record_dom) simp
  also have "\<dots> = (\<exists>fa. Some fa \<in> set rs \<and> fa_chainId fa = cid)"
    by (auto simp: set_map_filter_id)
  finally show ?thesis by (simp add: addressesByChainId_def Let_def)
qed

lemma fetchAll_responses:
  "map fst (fetchAll ep providers cs) =
     map (\<lambda>k. fst (fetchPrizePoolAddressesByChainId ep k (providers k)
                     (filter (\<lambda>c. chainId c = k)
                        (getContractsByType cs ContractType_YieldSourcePrizePool))))
       (sort (remdups (map chainId (getContractsByType cs ContractType_YieldSourcePrizePool))))"
  by (simp add: fetchAll_def sortContractsByChainId_def Let_def comp_def)

lemma fetchAll_fulfilled:
  "(\<exists>fa. Some fa \<in> set (map fst (fetchAll ep providers cs)) \<and> fa_chainId fa = cid)
     = (cid \<in> chainId ` set (getContractsByType cs ContractType_YieldSourcePrizePool)
        \<and> batch_fulfilled ep providers cs cid)"
proof -
  let ?P = "getContractsByType cs ContractType_YieldSourcePrizePool"
  let ?F = "\<lambda>k. fst (fetchPrizePoolAddressesByChainId ep k (providers k) (filter (\<lambda>c. chainId c = k) ?P))"
  have resp: "set (map fst (fetchAll ep providers cs)) = ?F ` chainId ` set ?P"
    by (simp only: fetchAll_responses) simp
  show ?thesis
  proof
    assume "\<exists>fa. Some fa \<in> set (map fst (fetchAll ep providers cs)) \<and> fa_chainId fa = cid"
    then obtain fa where m: "Some fa \<in> ?F ` chainId ` set ?P" and c: "fa_chainId fa = cid"
      unfolding resp by blast
    from m obtain k where k: "k \<in> chainId ` set ?P" and f: "?F k = Some fa"
      by (metis (no_types, lifting) imageE)
    from fetch_fulfilled [OF f] c have "k = cid" by simp
    with k f show "cid \<in> chainId ` set ?P \<and> batch_fulfilled ep providers cs cid"
      by (simp add: batch_fulfilled_def)
  next
    assume a: "cid \<in> chainId ` set ?P \<and> batch_fulfilled ep providers cs cid"
    then obtain fa where f: "?F cid = Some fa"
      by (auto simp: batch_fulfilled_def)
    from fetch_fulfilled [OF f] have c: "fa_chainId fa = cid" by simp
    from a have "?F cid \<in> ?F ` chainId ` set ?P" by (intro imageI) simp
    with f have "Some fa \<in> set (map fst (fetchAll ep providers cs))"
      unfolding resp by simp
    with c show "\<exists>fa. Some fa \<in> set (map fst (fetchAll ep providers cs)) \<and> fa_chainId fa = cid"
      by blast
  qed
qed

lemma batch_fulfilled_provider:
  "batch_fulfilled ep providers cs cid \<Longrightarrow> providers cid \<noteq> None"
  by (auto simp: batch_fulfilled_def fetch_cases batch_def split: option.splits if_splits)

lemma withChildren_same [simp]:
  "chainId (withChildren m c) = chainId c" "address (withChildren m c) = address c"
  "type (withChildren m c) = type c"
  by (auto simp: withChildren_def split: option.splits)

lemma extend_filter:
  "filter (\<lambda>c. type c = ty) (extendContractWithChildren cs m ty)
     = map (withChildren m) (filter (\<lambda>c. type c = ty \<and> m (chainId c) \<noteq> None) cs)"
  by (induction cs) (auto simp: extendContractWithChildren_def withChildren_def split: option.splits)

lemma foldl_push_absent:
  "foldl (\<lambda>updatedContracts token.
            (case find (P token) cs of
               None \<Rightarrow> updatedContracts @ [mk token]
             | Some tokenContract' \<Rightarrow> updatedContracts)) acc tokens
   = acc @ map mk (filter (\<lambda>token. find (P token) cs = None) tokens)"
  by (induction tokens arbitrary: acc) (auto split: option.splits)

lemma extendContractsWithToken_appends:
  "extendContractsWithToken cs =
     cs @ map (\<lambda>token. createTokenContract (child_chainId token) (child_address token)) (newTokens cs)"
  unfolding extendContractsWithToken_def newTokens_def Let_def
  by (rule foldl_push_absent
      [where P = "\<lambda>token contract. address contract = child_address token \<and> chainId contract = child_chainId token"])

lemma newTokens_absent:
  "token \<in> set (newTokens cs) \<Longrightarrow>
   \<not> (\<exists>c \<in> set cs. address c = child_address token \<and> chainId c = child_chainId token)"
  by (auto simp: newTokens_def find_None_iff)

lemma token_filter:
  "ty \<noteq> ''Token'' \<Longrightarrow>
   filter (\<lambda>c. type c = ty) (extendContractsWithToken cs) = filter (\<lambda>c. type c = ty) cs"
  by (simp add: extendContractsWithToken_appends createTokenContract_def filter_empty_conv)

text \<open>
  \<open>createPrizePools\<close> builds no pool: whatever groups the helper returns, the first
  group ends the map with a TypeError, and only a list without groups gives a result, the
  empty one.
\<close>

lemma createPrizePools_groups:
  "createPrizePools providers cs =
     (if sortContractsByContractTypeAndChildren cs ContractType_YieldSourcePrizePool = []
      then Inr [] else Inl TypeError)"
proof -
  have "(case find (\<lambda>contract. type contract = ContractType_YieldSourcePrizePool) g of
           None \<Rightarrow> Inl TypeError
         | Some prizePoolContract' \<Rightarrow>
             (let provider = providers (chainId prizePoolContract')
              in new_PrizePool_of_provider provider g)) = Inl TypeError" for g
    by (simp add: new_PrizePool_of_provider_def Let_def split: option.splits)
  then show ?thesis
    by (simp only: createPrizePools_def Let_def map_throwing_none)
qed

lemma createPrizePools_no_pool:
  "createPrizePools providers cs = Inr pools \<Longrightarrow> pools = []"
  by (simp add: createPrizePools_groups split: if_splits)

lemma createPrizePools_throws:
  "c \<in> set cs \<Longrightarrow> type c = ContractType_YieldSourcePrizePool
     \<Longrightarrow> createPrizePools providers cs = Inl TypeError"
  by (auto simp: createPrizePools_groups sortContractsByContractTypeAndChildren_def
        filter_empty_conv)

text \<open>
  Assembling the linked prize pool throws as soon as one prize pool contract is left in the
  augmented list, which is the case when the batch of its network was fulfilled; and when
  it returns, the linked prize pool has no pool.
\<close>

lemma initializeLinkedPrizePool_throws:
  assumes "c \<in> set (contracts cl)" and "type c = ContractType_YieldSourcePrizePool"
      and "batch_fulfilled ep providers (contracts cl) (chainId c)"
  shows "fst (initializeLinkedPrizePool ep providers cl) = Inl TypeError"
proof -
  let ?Y = "ContractType_YieldSourcePrizePool"
  let ?cs = "contracts cl"
  let ?m = "addressesByChainId (map fst (fetchAll ep providers ?cs))"
  let ?ext = "extendContractsWithToken (extendContractWithChildren ?cs ?m ?Y)"
  from assms have "chainId c \<in> chainId ` set (getContractsByType ?cs ?Y)"
    by (simp add: getContractsByType_def)
  moreover have "(?m (chainId c) \<noteq> None)
          = (chainId c \<in> chainId ` set (getContractsByType ?cs ?Y)
             \<and> batch_fulfilled ep providers ?cs (chainId c))"
    by (simp only: addressesByChainId_dom fetchAll_fulfilled)
  ultimately have dom: "?m (chainId c) \<noteq> None" using assms by simp
  have Y: "?Y \<noteq> ''Token''" by (simp add: ContractType_YieldSourcePrizePool_def)
  have "filter (\<lambda>c. type c = ?Y) ?ext
          = map (withChildren ?m) (filter (\<lambda>c. type c = ?Y \<and> ?m (chainId c) \<noteq> None) ?cs)"
    by (simp add: token_filter [OF Y] extend_filter)
  moreover have "c \<in> set (filter (\<lambda>c. type c = ?Y \<and> ?m (chainId c) \<noteq> None) ?cs)"
    using assms dom by simp
  ultimately have "withChildren ?m c \<in> set (filter (\<lambda>c. type c = ?Y) ?ext)"
    by (simp only: set_map) (rule imageI)
  then have "withChildren ?m c \<in> set ?ext" "type (withChildren ?m c) = ?Y" by simp_all
  from createPrizePools_throws [OF this] show ?thesis
    by (simp add: initializeLinkedPrizePool_def new_LinkedPrizePool_def Let_def)
qed

lemma initializeLinkedPrizePool_no_pool:
  "fst (initializeLinkedPrizePool ep providers cl) = Inr lpp \<Longrightarrow> prizePools lpp = []"
  by (auto simp: initializeLinkedPrizePool_def new_LinkedPrizePool_def Let_def
        createPrizePools_groups split: if_splits)


subsection \<open>Stores\<close>

lemma extends_refl: "extends st st"
  by (simp add: extends_def)

lemma extends_trans:
  assumes "extends a b" and "extends b c"
  shows "extends a c"
proof -
  have o: "take (length (objects a)) (objects c) = objects a"
  proof -
    have "take (length (objects a)) (take (length (objects b)) (objects c)) = objects a"
      using assms by (simp only: extends_def)
    moreover have "length (objects a) \<le> length (objects b)" using assms by (simp only: extends_def)
    ultimately show ?thesis by (simp add: min_def)
  qed
  have r: "take (length (arrays a)) (arrays c) = arrays a"
  proof -
    have "take (length (arrays a)) (take (length (arrays b)) (arrays c)) = arrays a"
      using assms by (simp only: extends_def)
    moreover have "length (arrays a) \<le> length (arrays b)" using assms by (simp only: extends_def)
    ultimately show ?thesis by (simp add: min_def)
  qed
  from assms have "length (objects a) \<le> length (objects c)" "length (arrays a) \<le> length (arrays c)"
    by (simp_all add: extends_def)
  with o r show ?thesis by (simp add: extends_def)
qed

lemma extends_object:
  assumes "extends st st'" and "r < length (objects st)"
  shows "objects st' ! r = objects st ! r"
proof -
  have "take (length (objects st)) (objects st') ! r = objects st' ! r"
    using assms(2) by simp
  with assms(1) show ?thesis by (simp add: extends_def)
qed

lemma extends_array:
  assumes "extends st st'" and "a < length (arrays st)"
  shows "arrays st' ! a = arrays st ! a"
proof -
  have "take (length (arrays st)) (arrays st') ! a = arrays st' ! a"
    using assms(2) by simp
  with assms(1) show ?thesis by (simp add: extends_def)
qed

lemma extends_new_object: "extends st (fst (new_object st c))"
  by (simp add: extends_def new_object_def)

lemma extends_new_array: "extends st (fst (new_array st rs))"
  by (simp add: extends_def new_array_def)

lemma extends_push:
  "extends st0 st \<Longrightarrow> length (arrays st0) \<le> a \<Longrightarrow> extends st0 (push st a r)"
  by (simp add: extends_def push_def)

lemma extends_valid_refs: "extends st st' \<Longrightarrow> valid_refs st rs \<Longrightarrow> valid_refs st' rs"
  by (auto simp: extends_def valid_refs_def list_all_iff)

lemma extends_deref:
  "extends st st' \<Longrightarrow> valid_refs st rs \<Longrightarrow> map (\<lambda>r. objects st' ! r) rs = map (\<lambda>r. objects st ! r) rs"
  by (auto simp: valid_refs_def list_all_iff extends_object)

lemma extends_array_of:
  assumes "extends st st'" and "valid_array st a"
  shows "array_of st' a = array_of st a \<and> valid_array st' a"
proof -
  from assms(2) have a: "a < length (arrays st)" and v: "valid_refs st (arrays st ! a)"
    by (simp_all add: valid_array_def)
  from extends_array [OF assms(1) a] have same: "arrays st' ! a = arrays st ! a" .
  from assms(1) a have "a < length (arrays st')" by (simp add: extends_def)
  with same extends_deref [OF assms(1) v] extends_valid_refs [OF assms(1) v]
  show ?thesis by (simp add: array_of_def valid_array_def)
qed

subsection \<open>extendContractsWithToken on the store\<close>

lemma pushTokenIfAbsent_extends:
  assumes "extends st0 st" and "length (arrays st0) \<le> u"
  shows "extends st0 (pushTokenIfAbsent a u st token)"
proof (cases "find (\<lambda>contract. address contract = child_address token
                             \<and> chainId contract = child_chainId token) (array_of st a)")
  case None
  let ?st' = "fst (new_object st (createTokenContract (child_chainId token) (child_address token)))"
  have "extends st0 ?st'" using assms(1) extends_new_object by (rule extends_trans)
  then have "extends st0 (push ?st' u (length (objects st)))" using assms(2) by (rule extends_push)
  with None show ?thesis by (simp add: pushTokenIfAbsent_def new_object_def)
next
  case (Some c)
  with assms(1) show ?thesis by (simp add: pushTokenIfAbsent_def)
qed

lemma foldl_pushTokenIfAbsent_extends:
  "extends st0 st \<Longrightarrow> length (arrays st0) \<le> u
   \<Longrightarrow> extends st0 (foldl (pushTokenIfAbsent a u) st tokens)"
  by (induction tokens arbitrary: st) (simp_all add: pushTokenIfAbsent_extends)

lemma extendContractsWithToken_st_extends:
  "extends st (fst (extendContractsWithToken_st st a))"
proof -
  have "extends st (fst (new_array st (arrays st ! a)))" by (rule extends_new_array)
  then show ?thesis
    by (simp add: extendContractsWithToken_st_def new_array_def Let_def
        foldl_pushTokenIfAbsent_extends)
qed

lemma pushTokenIfAbsent_array:
  assumes "extends st0 st" and "valid_array st0 a" and "length (arrays st0) \<le> u"
      and "u < length (arrays st)" and "valid_refs st (arrays st ! u)"
  shows "u < length (arrays (pushTokenIfAbsent a u st token))
       \<and> valid_refs (pushTokenIfAbsent a u st token) (arrays (pushTokenIfAbsent a u st token) ! u)
       \<and> array_of (pushTokenIfAbsent a u st token) u =
           (case find (\<lambda>contract. address contract = child_address token
                                   \<and> chainId contract = child_chainId token) (array_of st0 a) of
              None \<Rightarrow> array_of st u @ [createTokenContract (child_chainId token) (child_address token)]
            | Some tokenContract' \<Rightarrow> array_of st u)"
proof -
  from extends_array_of [OF assms(1,2)] have same: "array_of st a = array_of st0 a" by simp
  show ?thesis
  proof (cases "find (\<lambda>contract. address contract = child_address token
                             \<and> chainId contract = child_chainId token) (array_of st0 a)")
    case None
    have d: "map ((!) (objects st @ [c])) (arrays st ! u) = map ((!) (objects st)) (arrays st ! u)" for c
      using assms(5) by (auto simp: valid_refs_def list_all_iff nth_append)
    from None same assms(4,5) d show ?thesis
      by (simp add: pushTokenIfAbsent_def new_object_def push_def array_of_def valid_refs_def
          list_all_iff less_Suc_eq)
  next
    case (Some c)
    with same assms(4,5) show ?thesis by (simp add: pushTokenIfAbsent_def)
  qed
qed

lemma foldl_pushTokenIfAbsent_array:
  assumes "valid_array st0 a" and "length (arrays st0) \<le> u"
  shows "extends st0 st \<Longrightarrow> u < length (arrays st) \<Longrightarrow> valid_refs st (arrays st ! u)
   \<Longrightarrow> u < length (arrays (foldl (pushTokenIfAbsent a u) st tokens))
       \<and> valid_refs (foldl (pushTokenIfAbsent a u) st tokens)
           (arrays (foldl (pushTokenIfAbsent a u) st tokens) ! u)
       \<and> array_of (foldl (pushTokenIfAbsent a u) st tokens) u =
          foldl (\<lambda>updatedContracts token.
                  (case find (\<lambda>contract. address contract = child_address token
                                          \<and> chainId contract = child_chainId token) (array_of st0 a) of
                     None \<Rightarrow> updatedContracts @ [createTokenContract (child_chainId token) (child_address token)]
                   | Some tokenContract' \<Rightarrow> updatedContracts))
            (array_of st u) tokens"
proof (induction tokens arbitrary: st)
  case Nil
  then show ?case by simp
next
  case (Cons token tokens)
  from pushTokenIfAbsent_array [OF Cons.prems(1) assms(1,2) Cons.prems(2,3), of token]
  have 1: "u < length (arrays (pushTokenIfAbsent a u st token))"
    and 2: "valid_refs (pushTokenIfAbsent a u st token) (arrays (pushTokenIfAbsent a u st token) ! u)"
    and 3: "array_of (pushTokenIfAbsent a u st token) u =
           (case find (\<lambda>contract. address contract = child_address token
                                   \<and> chainId contract = child_chainId token) (array_of st0 a) of
              None \<Rightarrow> array_of st u @ [createTokenContract (child_chainId token) (child_address token)]
            | Some tokenContract' \<Rightarrow> array_of st u)"
    by simp_all
  have 0: "extends st0 (pushTokenIfAbsent a u st token)"
    using Cons.prems(1) assms(2) by (rule pushTokenIfAbsent_extends)
  from Cons.IH [OF 0 1 2] 3 show ?case by simp
qed

lemma extendContractsWithToken_st_refines:
  assumes "valid_array st a"
  shows "array_of (fst (extendContractsWithToken_st st a)) (snd (extendContractsWithToken_st st a))
           = extendContractsWithToken (array_of st a)
       \<and> valid_array (fst (extendContractsWithToken_st st a)) (snd (extendContractsWithToken_st st a))
       \<and> length (arrays st) \<le> snd (extendContractsWithToken_st st a)"
proof -
  let ?st1 = "st\<lparr>arrays := arrays st @ [arrays st ! a]\<rparr>"
  let ?u = "length (arrays st)"
  from assms have a: "a < length (arrays st)" and v: "valid_refs st (arrays st ! a)"
    by (simp_all add: valid_array_def)
  have e: "extends st ?st1" using extends_new_array [of st "arrays st ! a"] by (simp add: new_array_def)
  have u: "?u < length (arrays ?st1)" by simp
  have vu: "valid_refs ?st1 (arrays ?st1 ! ?u)" using v by (simp add: valid_refs_def)
  have copy: "array_of ?st1 ?u = array_of st a" by (simp add: array_of_def)
  have same: "array_of ?st1 a = array_of st a" using a by (simp add: array_of_def nth_append)
  note loop = foldl_pushTokenIfAbsent_array [OF assms le_refl e u vu]
  show ?thesis
    using loop [of "concat (map (\<lambda>contract. case extensions_children contract of None \<Rightarrow> [] | Some chs \<Rightarrow> chs)
                      (filter (\<lambda>contract. extensions_children contract \<noteq> None) (array_of st a)))"]
    by (simp add: extendContractsWithToken_st_def extendContractsWithToken_def new_array_def Let_def
        same copy valid_array_def)
qed

subsection \<open>extendContractWithChildren on the store\<close>

lemma extendContractWithChildren_Cons:
  "extendContractWithChildren (c # cs) m ty
     = extendContractWithChildren [c] m ty @ extendContractWithChildren cs m ty"
  by (simp add: extendContractWithChildren_def)

lemma extendOne_extends:
  assumes "extends st0 st"
  shows "extends st0 (fst (extendOne m ty (st, refs) r))"
proof -
  have "extends st0 (fst (new_object st c))" for c
    using assms extends_new_object by (rule extends_trans)
  with assms show ?thesis
    by (simp add: extendOne_def Let_def new_object_def split: option.splits)
qed

lemma foldl_extendOne_extends:
  "extends st0 (fst acc) \<Longrightarrow> extends st0 (fst (foldl (extendOne m ty) acc rs))"
proof (induction rs arbitrary: acc)
  case Nil
  then show ?case by simp
next
  case (Cons r rs)
  obtain st refs where acc: "acc = (st, refs)" by (cases acc)
  with Cons.prems have "extends st0 (fst (extendOne m ty acc r))"
    by (simp add: extendOne_extends)
  from Cons.IH [OF this] show ?case by simp
qed

lemma extendContractWithChildren_st_extends:
  "extends st (fst (extendContractWithChildren_st st a m ty))"
proof -
  obtain st' refs where f: "foldl (extendOne m ty) (st, []) (arrays st ! a) = (st', refs)"
    by (cases "foldl (extendOne m ty) (st, []) (arrays st ! a)")
  have "extends st (fst (foldl (extendOne m ty) (st, []) (arrays st ! a)))"
    by (rule foldl_extendOne_extends) (simp add: extends_refl)
  with f have "extends st st'" by simp
  then have "extends st (fst (new_array st' refs))"
    using extends_new_array by (rule extends_trans)
  with f show ?thesis by (simp add: extendContractWithChildren_st_def)
qed

lemma extendOne_refines:
  assumes "extends st0 st" and "r < length (objects st0)" and "valid_refs st refs"
  shows "valid_refs (fst (extendOne m ty (st, refs) r)) (snd (extendOne m ty (st, refs) r))
       \<and> map (\<lambda>x. objects (fst (extendOne m ty (st, refs) r)) ! x) (snd (extendOne m ty (st, refs) r))
           = map (\<lambda>x. objects st ! x) refs @ extendContractWithChildren [objects st0 ! r] m ty"
proof -
  let ?c = "objects st0 ! r"
  from extends_object [OF assms(1,2)] have same: "objects st ! r = ?c" .
  from assms(1,2) have r: "r < length (objects st)" by (simp add: extends_def)
  have d: "map (\<lambda>x. (objects st @ [c]) ! x) refs = map (\<lambda>x. objects st ! x) refs" for c
    using assms(3) by (auto simp: valid_refs_def list_all_iff nth_append)
  have keep: "valid_refs st (refs @ [r])" using assms(3) r by (simp add: valid_refs_def)
  have grow: "valid_refs (st\<lparr>objects := objects st @ [c]\<rparr>) (refs @ [length (objects st)])" for c
    using assms(3) by (auto simp: valid_refs_def list_all_iff)
  show ?thesis
  proof (cases "type ?c = ty")
    case False
    with same keep show ?thesis
      by (simp add: extendOne_def extendContractWithChildren_def Let_def)
  next
    case True
    show ?thesis
    proof (cases "m (chainId ?c)")
      case None
      with True same assms(3) show ?thesis
        by (simp add: extendOne_def extendContractWithChildren_def Let_def)
    next
      case (Some addrs)
      show ?thesis
      proof (cases "map_of addrs (address ?c)")
        case None
        with True Some same keep show ?thesis
          by (simp add: extendOne_def extendContractWithChildren_def Let_def)
      next
        case (Some pair)
        with True \<open>m (chainId ?c) = Some addrs\<close> same grow d show ?thesis
          by (simp add: extendOne_def extendContractWithChildren_def new_object_def Let_def)
      qed
    qed
  qed
qed

lemma foldl_extendOne_refines:
  assumes "valid_refs st0 rs"
  shows "extends st0 (fst acc) \<Longrightarrow> valid_refs (fst acc) (snd acc)
   \<Longrightarrow> valid_refs (fst (foldl (extendOne m ty) acc rs)) (snd (foldl (extendOne m ty) acc rs))
       \<and> map (\<lambda>x. objects (fst (foldl (extendOne m ty) acc rs)) ! x) (snd (foldl (extendOne m ty) acc rs))
           = map (\<lambda>x. objects (fst acc) ! x) (snd acc)
             @ extendContractWithChildren (map (\<lambda>x. objects st0 ! x) rs) m ty"
  using assms
proof (induction rs arbitrary: acc)
  case Nil
  then show ?case by (simp add: extendContractWithChildren_def)
next
  case (Cons r rs)
  obtain st refs where acc: "acc = (st, refs)" by (cases acc)
  from Cons.prems(3) have r: "r < length (objects st0)" and rs: "valid_refs st0 rs"
    by (simp_all add: valid_refs_def)
  from Cons.prems(1,2) acc have e: "extends st0 st" and v: "valid_refs st refs" by simp_all
  note one = extendOne_refines [OF e r v, of m ty]
  have e': "extends st0 (fst (extendOne m ty acc r))" using e acc by (simp add: extendOne_extends)
  from one acc have v': "valid_refs (fst (extendOne m ty acc r)) (snd (extendOne m ty acc r))" by simp
  have step: "extendContractWithChildren (objects st0 ! r # map (\<lambda>x. objects st0 ! x) rs) m ty
          = extendContractWithChildren [objects st0 ! r] m ty
            @ extendContractWithChildren (map (\<lambda>x. objects st0 ! x) rs) m ty"
    by (rule extendContractWithChildren_Cons)
  from Cons.IH [OF e' v' rs] one acc show ?case
    by (simp add: step)
qed

lemma extendContractWithChildren_st_refines:
  assumes "valid_array st a"
  shows "array_of (fst (extendContractWithChildren_st st a m ty)) (snd (extendContractWithChildren_st st a m ty))
           = extendContractWithChildren (array_of st a) m ty
       \<and> valid_array (fst (extendContractWithChildren_st st a m ty)) (snd (extendContractWithChildren_st st a m ty))
       \<and> length (arrays st) \<le> snd (extendContractWithChildren_st st a m ty)"
proof -
  obtain st' refs where f: "foldl (extendOne m ty) (st, []) (arrays st ! a) = (st', refs)"
    by (cases "foldl (extendOne m ty) (st, []) (arrays st ! a)")
  from assms have v: "valid_refs st (arrays st ! a)" by (simp add: valid_array_def)
  have "extends st (fst (foldl (extendOne m ty) (st, []) (arrays st ! a)))"
    by (rule foldl_extendOne_extends) (simp add: extends_refl)
  with f have e: "extends st st'" by simp
  from foldl_extendOne_refines [OF v, of "(st, [])" m ty] f
  have vr: "valid_refs st' refs"
    and m: "map (\<lambda>x. objects st' ! x) refs = extendContractWithChildren (array_of st a) m ty"
    by (simp_all add: extends_refl valid_refs_def array_of_def)
  from e have "length (arrays st) \<le> length (arrays st')" by (simp add: extends_def)
  with f vr m show ?thesis
    by (simp add: extendContractWithChildren_st_def new_array_def array_of_def valid_array_def
        valid_refs_def)
qed

subsection \<open>What extendContractsWithToken adds\<close>

text \<open>
  When the list has no two contracts of the same network and address, and no two of the
  children it has no contract for are the same, the extended list has no two contracts of
  the same network and address either.
\<close>

lemma extendContractsWithToken_distinct:
  assumes "distinct (map descriptor_key cs)"
      and "distinct (map (\<lambda>token. (child_chainId token, child_address token)) (newTokens cs))"
  shows "distinct (map descriptor_key (extendContractsWithToken cs))"
proof -
  have keys: "map descriptor_key (extendContractsWithToken cs)
          = map descriptor_key cs
            @ map (\<lambda>token. (child_chainId token, child_address token)) (newTokens cs)"
    by (simp add: extendContractsWithToken_appends descriptor_key_def createTokenContract_def comp_def)
  have "set (map descriptor_key cs)
          \<inter> set (map (\<lambda>token. (child_chainId token, child_address token)) (newTokens cs)) = {}"
    using newTokens_absent [of _ cs] by (auto simp: descriptor_key_def)
  with assms keys show ?thesis by simp
qed

subsection \<open>initializePrizePools\<close>

lemma initializePrizePools_loop:
  "foldl
     (\<lambda>(prizePools, console) prizePoolMetadata'.
        (case new_PrizePool' prizePoolMetadata' (providers (chainId prizePoolMetadata')) cs of
           Inr pp \<Rightarrow> (prizePools @ [pp], console)
         | Inl err \<Rightarrow> (prizePools, console @ [err])))
     (ps, es) ms
   = (ps @ List.map_filter (\<lambda>m. case new_PrizePool' m (providers (chainId m)) cs of
                                   Inr pp \<Rightarrow> Some pp | Inl err \<Rightarrow> None) ms,
      es @ List.map_filter (\<lambda>m. case new_PrizePool' m (providers (chainId m)) cs of
                                   Inr pp \<Rightarrow> None | Inl err \<Rightarrow> Some err) ms)"
  by (induction ms arbitrary: ps es) (auto simp: List.map_filter_simps split: sum.splits)

text \<open>
  Whatever the constructor does, \<open>initializePrizePools\<close> returns: its pools are those of
  the prize pool contracts whose construction returned, in the order of the list, and it
  logs the error of every other.
\<close>

lemma initializePrizePools_skips:
  "initializePrizePools new_PrizePool' cl providers
     = (List.map_filter (\<lambda>m. case new_PrizePool' m (providers (chainId m)) (contracts cl) of
                                Inr pp \<Rightarrow> Some pp | Inl err \<Rightarrow> None)
          (getContractsByType (contracts cl) ContractType_PrizePool),
        List.map_filter (\<lambda>m. case new_PrizePool' m (providers (chainId m)) (contracts cl) of
                                Inr pp \<Rightarrow> None | Inl err \<Rightarrow> Some err)
          (getContractsByType (contracts cl) ContractType_PrizePool))"
  by (simp only: initializePrizePools_def Let_def initializePrizePools_loop append_Nil)

subsection \<open>The example list\<close>

lemma example_pools:
  "getContractsByType example_contracts ContractType_YieldSourcePrizePool
     = [descriptor 1 ''0xPoolA'' ''YieldSourcePrizePool'',
        descriptor 5 ''0xPoolC'' ''YieldSourcePrizePool'',
        descriptor 1 ''0xPoolB'' ''YieldSourcePrizePool'']"
  by (simp add: getContractsByType_def example_contracts_def descriptor_def
      ContractType_YieldSourcePrizePool_def)


lemma example_callable:
  "list_all (callable example_etherplex)
     (getContractsByType example_contracts ContractType_YieldSourcePrizePool)"
  by (simp add: example_pools callable_def example_etherplex_def descriptor_def)

lemma example_fulfilled:
  "batch_fulfilled example_etherplex example_providers example_contracts cid = (cid = 1)"
proof -
  have "list_all (callable example_etherplex)
          (filter (\<lambda>c. chainId c = cid)
             (getContractsByType example_contracts ContractType_YieldSourcePrizePool))"
    using example_callable by (simp add: list_all_iff)
  then show ?thesis
    by (simp add: batch_fulfilled_def fetch_cases batch_def example_etherplex_def
        example_providers_def split: option.splits)
qed

subsection \<open>The claims about LinkedPrizePool.ts\<close>




text \<open>
  C2: when the batches of some networks are rejected, the linked prize pool is to be
  assembled without throwing, with a pool for every prize pool contract of the networks
  whose batch was fulfilled. \<open>createPrizePools\<close> constructs the pools with
  \<^verbatim>\<open>new PrizePool(provider, contracts)\<close>, which throws for every group: on the example
  list, where the batch of network 1 is fulfilled and the batch of network 5 is rejected,
  the rejected batch is absorbed, but the assembly then throws a TypeError when it builds
  the first pool of network 1, and no linked prize pool is returned.
\<close>

theorem assembly_throws:
  "batch_fulfilled example_etherplex example_providers (contracts example_contract_list) 1
   \<and> \<not> batch_fulfilled example_etherplex example_providers (contracts example_contract_list) 5
   \<and> map fst (fetchAll example_etherplex example_providers (contracts example_contract_list))
       = [Some \<lparr>fa_chainId = 1,
                addressesByPrizePool =
                  [(''0xPoolA'', \<lparr>pa_token = ''0xToken'', pa_ticket = ''0xTicketA''\<rparr>),
                   (''0xPoolB'', \<lparr>pa_token = ''0xToken'', pa_ticket = ''0xTicketB''\<rparr>)]\<rparr>,
          None]
   \<and> fst (initializeLinkedPrizePool example_etherplex example_providers example_contract_list)
       = Inl TypeError"
proof -
  let ?A = "descriptor 1 ''0xPoolA'' ''YieldSourcePrizePool''"
  have cs: "contracts example_contract_list = example_contracts"
    by (simp add: example_contract_list_def)
  have 1: "batch_fulfilled example_etherplex example_providers example_contracts 1"
    and 5: "\<not> batch_fulfilled example_etherplex example_providers example_contracts 5"
    by (simp_all add: example_fulfilled)
  have responses: "map fst (fetchAll example_etherplex example_providers example_contracts)
       = [Some \<lparr>fa_chainId = 1,
                addressesByPrizePool =
                  [(''0xPoolA'', \<lparr>pa_token = ''0xToken'', pa_ticket = ''0xTicketA''\<rparr>),
                   (''0xPoolB'', \<lparr>pa_token = ''0xToken'', pa_ticket = ''0xTicketB''\<rparr>)]\<rparr>,
          None]"
    by (simp add: fetchAll_responses example_pools fetch_cases callable_def batch_def
        example_etherplex_def example_providers_def contextOf_def pairOf_def descriptor_def)
  have "?A \<in> set (contracts example_contract_list)" "type ?A = ContractType_YieldSourcePrizePool"
    "chainId ?A = 1"
    by (simp_all add: cs example_contracts_def descriptor_def ContractType_YieldSourcePrizePool_def)
  with 1 have "fst (initializeLinkedPrizePool example_etherplex example_providers example_contract_list)
                 = Inl TypeError"
    using initializeLinkedPrizePool_throws
      [of ?A example_contract_list example_etherplex example_providers]
    by (simp add: cs)
  with 1 5 responses show ?thesis by (simp add: cs)
qed

text \<open>
  C9: assembling the linked prize pool on a store leaves every object and every array the
  store had as they were; for a contract list whose array is in the store, the caller's
  array holds the same references and the same contracts afterwards, the contract list
  returned holds another array, and the result is what \<open>initializeLinkedPrizePool\<close>
  computes from the contracts of the caller's array.
\<close>

theorem input_list_untouched:
  "(case initializeLinkedPrizePool_st ep providers st cl of
      (res, st', cl') \<Rightarrow>
        extends st st'
        \<and> (valid_array st (clr_contracts cl) \<longrightarrow>
             arrays st' ! clr_contracts cl = arrays st ! clr_contracts cl
             \<and> array_of st' (clr_contracts cl) = array_of st (clr_contracts cl)
             \<and> clr_contracts cl' \<noteq> clr_contracts cl
             \<and> res = initializeLinkedPrizePool ep providers
                       \<lparr>cl_name = clr_name cl, contracts = array_of st (clr_contracts cl)\<rparr>))"
proof -
  let ?a = "clr_contracts cl"
  let ?m = "addressesByChainId (map fst (fetchAll ep providers (array_of st ?a)))"
  let ?Y = "ContractType_YieldSourcePrizePool"
  obtain st1 a1 where c: "extendContractWithChildren_st st ?a ?m ?Y = (st1, a1)"
    by (cases "extendContractWithChildren_st st ?a ?m ?Y")
  obtain st2 a2 where t: "extendContractsWithToken_st st1 a1 = (st2, a2)"
    by (cases "extendContractsWithToken_st st1 a1")
  have run: "initializeLinkedPrizePool_st ep providers st cl =
          ((new_LinkedPrizePool providers \<lparr>cl_name = clr_name cl, contracts = array_of st2 a2\<rparr>,
            concat (map snd (fetchAll ep providers (array_of st ?a)))),
           st2, cl\<lparr>clr_contracts := a2\<rparr>)"
    using c t by (simp add: initializeLinkedPrizePool_st_def Let_def)
  have e1: "extends st st1" using extendContractWithChildren_st_extends [of st ?a ?m ?Y] c by simp
  have e2: "extends st1 st2" using extendContractsWithToken_st_extends [of st1 a1] t by simp
  have e: "extends st st2" using e1 e2 by (rule extends_trans)
  have rest: "arrays st2 ! ?a = arrays st ! ?a
             \<and> array_of st2 ?a = array_of st ?a
             \<and> a2 \<noteq> ?a
             \<and> (new_LinkedPrizePool providers \<lparr>cl_name = clr_name cl, contracts = array_of st2 a2\<rparr>,
                 concat (map snd (fetchAll ep providers (array_of st ?a))))
                = initializeLinkedPrizePool ep providers
                       \<lparr>cl_name = clr_name cl, contracts = array_of st ?a\<rparr>"
    if v: "valid_array st ?a"
  proof -
    from v have a: "?a < length (arrays st)" by (simp add: valid_array_def)
    from extendContractWithChildren_st_refines [OF v, of ?m ?Y] c
    have r1: "array_of st1 a1 = extendContractWithChildren (array_of st ?a) ?m ?Y"
      and v1: "valid_array st1 a1" by simp_all
    from extendContractsWithToken_st_refines [OF v1] t
    have r2: "array_of st2 a2 = extendContractsWithToken (array_of st1 a1)"
      and fresh: "length (arrays st1) \<le> a2" by simp_all
    from e1 have "length (arrays st) \<le> length (arrays st1)" by (simp add: extends_def)
    with fresh a have ne: "a2 \<noteq> ?a" by simp
    from extends_array [OF e a] extends_array_of [OF e v] ne r1 r2 show ?thesis
      by (simp add: initializeLinkedPrizePool_def Let_def)
  qed
  from run e rest show ?thesis by simp
qed

theorem input_list_untouched_witness:
  "valid_array example_store (clr_contracts example_contract_list_ref)
   \<and> array_of example_store (clr_contracts example_contract_list_ref) = example_contracts
   \<and> array_of (fst (snd (initializeLinkedPrizePool_st example_etherplex example_providers
                          example_store example_contract_list_ref)))
        (clr_contracts example_contract_list_ref) = example_contracts
   \<and> arrays (fst (snd (initializeLinkedPrizePool_st example_etherplex example_providers
                        example_store example_contract_list_ref))) ! 0 = [0, 1, 2, 3, 4, 5]
   \<and> clr_contracts (snd (snd (initializeLinkedPrizePool_st example_etherplex example_providers
                                example_store example_contract_list_ref))) \<noteq> 0"
proof -
  have v: "valid_array example_store (clr_contracts example_contract_list_ref)"
    by (simp add: valid_array_def valid_refs_def example_store_def example_contract_list_ref_def
        example_contracts_def)
  have a: "array_of example_store (clr_contracts example_contract_list_ref) = example_contracts"
    by (simp add: array_of_def example_store_def example_contract_list_ref_def example_contracts_def)
  have z: "clr_contracts example_contract_list_ref = 0" "arrays example_store ! 0 = [0, 1, 2, 3, 4, 5]"
    by (simp_all add: example_contract_list_ref_def example_store_def)
  from input_list_untouched
    [where ep = example_etherplex and providers = example_providers and st = example_store
       and cl = example_contract_list_ref] v a z
  show ?thesis by (simp add: split_beta)
qed

text \<open>
  C4: the augmented list is to have no two descriptors with the same network and address,
  also when two prize pools of a network share their token. \<open>extendContractsWithToken\<close>
  looks every child up in the list it was given, not in the list it is building: for two
  pools of network 1 that both have the child \<open>0xToken\<close>, which has no descriptor, it
  adds a Token descriptor for \<open>0xToken\<close> twice, to a list that had no duplicate.
\<close>

theorem shared_token_injected_twice:
  "distinct (map descriptor_key contracts_with_children)
   \<and> extendContractsWithToken contracts_with_children
       = contracts_with_children @ [createTokenContract 1 ''0xToken'', createTokenContract 1 ''0xToken'']
   \<and> \<not> distinct (map descriptor_key (extendContractsWithToken contracts_with_children))"
  by (simp add: extendContractsWithToken_def extensions_children_def contracts_with_children_def
      descriptor_def with_children_def descriptor_key_def createTokenContract_def Let_def)

text \<open>
  C8: building the pools is to skip a deployment whose construction fails and to return the
  other pools. \<open>initializePrizePools\<close> does: with a constructor that throws for the
  second of three prize pool contracts, it returns the pools of the first and the third and
  logs the error. \<open>createPrizePools\<close> has no handler, and the construction it attempts,
  \<^verbatim>\<open>new PrizePool(provider, contracts)\<close>, throws for every group: with a provider for
  every network, the construction of the first deployment throws a TypeError and the whole
  build ends with it, for three prize pool contracts as for one.
\<close>

theorem createPrizePools_aborts:
  "example_providers 1 = Some \<lparr>network = 1\<rparr> \<and> example_providers 5 = Some \<lparr>network = 5\<rparr>
   \<and> createPrizePools example_providers
       [descriptor 1 ''0xPoolA'' ''YieldSourcePrizePool'',
        descriptor 5 ''0xPoolC'' ''YieldSourcePrizePool'',
        descriptor 1 ''0xPoolB'' ''YieldSourcePrizePool'']
       = Inl TypeError
   \<and> createPrizePools example_providers [descriptor 1 ''0xPoolA'' ''YieldSourcePrizePool'']
       = Inl TypeError
   \<and> map pool_key (fst (initializePrizePools (throwing_for ''0xPoolC'')
         \<lparr>cl_name = ''pools'',
          contracts = [descriptor 1 ''0xPoolA'' ''PrizePool'',
                       descriptor 5 ''0xPoolC'' ''PrizePool'',
                       descriptor 1 ''0xPoolB'' ''PrizePool'']\<rparr> example_providers))
       = [(1, ''0xPoolA''), (1, ''0xPoolB'')]
   \<and> snd (initializePrizePools (throwing_for ''0xPoolC'')
         \<lparr>cl_name = ''pools'',
          contracts = [descriptor 1 ''0xPoolA'' ''PrizePool'',
                       descriptor 5 ''0xPoolC'' ''PrizePool'',
                       descriptor 1 ''0xPoolB'' ''PrizePool'']\<rparr> example_providers)
       = [ConstructionFailure]"
  by (simp add: createPrizePools_def sortContractsByContractTypeAndChildren_def
      new_PrizePool_of_provider_def isChildOf_def extensions_children_def
      initializePrizePools_def getContractsByType_def new_PrizePool_def new_Contract_def
      throwing_for_def pool_key_def example_providers_def descriptor_def Let_def
      ContractType_YieldSourcePrizePool_def ContractType_PrizePool_def)

end
